theory Spec2Isabelle
  imports Complex_Main "HOL-Library.AList"
begin

section \<open>Python values shared by the three programs\<close>

text \<open>
  The exceptions the modelled code can meet. Python's \<^verbatim>\<open>except RuntimeError\<close> catches
  \<open>RuntimeError\<close> and its subclasses; \<open>KeyboardInterrupt\<close> derives from
  \<open>BaseException\<close>. \<open>RuntimeError msg\<close> stands for an instance of \<open>RuntimeError\<close> or
  of a subclass of it; \<open>OtherError c msg\<close> for an exception of any class \<open>c\<close> that is
  neither of the two nor one of the three named below.
\<close>

datatype exn =
    RuntimeError string
  | KeyboardInterrupt
  | KeyError string
  | IndexError
  | ValueError
  | OtherError string string

text \<open>
  A Python \<open>dict\<close> keeps its keys in insertion order, and \<open>d[k] = v\<close> replaces the
  value of a present key in place and appends an absent one: an association list with
  \<^const>\<open>AList.update\<close>. Reading \<open>d[k]\<close> raises \<open>KeyError\<close> for an absent key.
\<close>

type_synonym ('k, 'v) dict = "('k \<times> 'v) list"

definition getitem :: "(string, 'v) dict \<Rightarrow> string \<Rightarrow> exn + 'v" where
  "getitem d k = (case map_of d k of None \<Rightarrow> Inl (KeyError k) | Some v \<Rightarrow> Inr v)"

section \<open>The hyperparameter search: \<open>vision/train/hparam_search.py\<close>\<close>

subsection \<open>The random source\<close>

text \<open>
  The process-wide random source is the sequence of the results of its future
  \<open>random()\<close> calls, each in \<open>[0, 1)\<close>. A draw reads the head and leaves the rest.
\<close>

type_synonym rng = "nat \<Rightarrow> real"

definition wf_rng :: "rng \<Rightarrow> bool" where
  "wf_rng r = (\<forall>n. 0 \<le> r n \<and> r n < 1)"

definition rest :: "rng \<Rightarrow> rng" where
  "rest r = (\<lambda>n. r (Suc n))"

text \<open>\<open>random.uniform(a, b)\<close> is \<open>a + (b - a) * random()\<close>.\<close>

definition uniform :: "real \<Rightarrow> real \<Rightarrow> rng \<Rightarrow> real \<times> rng" where
  "uniform a b r = (a + (b - a) * r 0, rest r)"

text \<open>
  \<open>random.choice(seq)\<close> returns one element of \<open>seq\<close>, each with the same
  probability, and raises \<open>IndexError\<close> on an empty sequence: the draw \<open>u\<close> selects
  index \<open>\<lfloor>u * len(seq)\<rfloor>\<close>.
\<close>

definition random_choice :: "'a list \<Rightarrow> rng \<Rightarrow> exn + ('a \<times> rng)" where
  "random_choice xs r =
     (let k = nat \<lfloor>r 0 * real (length xs)\<rfloor>
      in if k < length xs then Inr (xs ! k, rest r) else Inl IndexError)"

subsection \<open>The sampling primitives of \<open>_hparams\<close>\<close>

text \<open>
  Modelled from the spec: the module \<open>_hparams\<close> is not among the sources; its classes
  are modelled from section 3 and 4.1 of the specification. The source's names are
  kept: \<open>RandomExponential(min, max)\<close> is the spec's \<open>LogUniform\<close>, sampling
  \<open>exp(uniform(log(min), log(max)))\<close>; \<open>RandomExponentialDiff(scale, min, max)\<close> is
  \<open>LogUniformOffset\<close>, sampling \<open>scale - exp(uniform(log(min), log(max)))\<close>;
  \<open>RandomHPChoices(alternatives)\<close> is \<open>Choice\<close>: it picks one alternative uniformly at
  random and resolves it recursively when it is itself a distribution. An alternative
  is a literal number or a nested distribution.
\<close>

datatype hparam =
    RandomExponential real real
  | RandomExponentialDiff real real real
  | RandomHPChoices "alt list"
and alt =
    Literal real
  | Nested hparam

fun get_next :: "hparam \<Rightarrow> rng \<Rightarrow> exn + (real \<times> rng)"
and resolve_alt :: "alt \<Rightarrow> rng \<Rightarrow> exn + (real \<times> rng)"
and pick_alt :: "alt list \<Rightarrow> nat \<Rightarrow> rng \<Rightarrow> exn + (real \<times> rng)"
where
  "get_next (RandomExponential min_val max_val) r =
     (case uniform (ln min_val) (ln max_val) r of (x, r') \<Rightarrow> Inr (exp x, r'))"
| "get_next (RandomExponentialDiff scale min_val max_val) r =
     (case uniform (ln min_val) (ln max_val) r of (x, r') \<Rightarrow> Inr (scale - exp x, r'))"
| "get_next (RandomHPChoices choices) r =
     pick_alt choices (nat \<lfloor>r 0 * real (length choices)\<rfloor>) (rest r)"
| "resolve_alt (Literal v) r = Inr (v, r)"
| "resolve_alt (Nested h) r = get_next h r"
| "pick_alt [] k r = Inl IndexError"
| "pick_alt (a # as) 0 r = resolve_alt a r"
| "pick_alt (a # as) (Suc k) r = pick_alt as k r"

text \<open>
  Modelled from the spec: the classes \<open>Optimizer\<close> and \<open>LRScheduler\<close> of \<open>_hparams\<close>
  (the spec's HyperparameterSpec): a kind name and the distribution of each option.
  Materializing a bound spec samples every option exactly once, in the order of the
  \<open>options\<close> dict, and hands the sampled values to the constructor of the kind.
\<close>

record hp_spec =
  name :: string
  options :: "(string, hparam) dict"

fun resolve_options :: "(string, hparam) dict \<Rightarrow> rng \<Rightarrow> exn + ((string, real) dict \<times> rng)" where
  "resolve_options [] r = Inr ([], r)"
| "resolve_options ((k, h) # opts) r =
     (case get_next h r of
        Inl e \<Rightarrow> Inl e
      | Inr (v, r') \<Rightarrow>
          (case resolve_options opts r' of
             Inl e \<Rightarrow> Inl e
           | Inr (kw, r'') \<Rightarrow> Inr ((k, v) # kw, r'')))"

subsection \<open>The search space declared in \<open>main\<close>\<close>

definition SGD :: hp_spec where
  "SGD = \<lparr>name = ''SGD'',
          options =
            [(''lr'', RandomExponential 0.0005 0.1),
             (''momentum'', RandomHPChoices [Literal 0, Nested (RandomExponentialDiff 1.0 0.01 0.5)]),
             (''weight_decay'', RandomHPChoices [Literal 0, Literal 0.01, Literal 0.0001])]\<rparr>"

definition Adam :: hp_spec where
  "Adam = \<lparr>name = ''Adam'',
           options =
             [(''lr'', RandomExponential 0.0005 0.1),
              (''weight_decay'', RandomHPChoices [Literal 0, Literal 0.01, Literal 0.0001])]\<rparr>"

definition AdamW :: hp_spec where
  "AdamW = \<lparr>name = ''AdamW'',
            options =
              [(''lr'', RandomExponential 0.0005 0.1),
               (''weight_decay'', RandomHPChoices [Literal 0, Literal 0.01, Literal 0.0001])]\<rparr>"

text \<open>
  \<open>optimizer_choices\<close> is a \<open>RandomHPChoices\<close> whose alternatives are the three
  \<open>Optimizer\<close> objects; \<open>main\<close> calls \<open>set_params\<close> and \<open>get_next\<close> on what its
  \<open>get_next\<close> returns, so an alternative that is an \<open>Optimizer\<close> is returned as it
  is: the random pick alone. \<open>lr_scheduler_choices\<close> holds the single alternative
  \<open>None\<close> (the \<open>StepLR\<close> alternative is commented out in the source).
\<close>

definition optimizer_choices :: "hp_spec list" where
  "optimizer_choices = [SGD, Adam, AdamW]"

definition lr_scheduler_choices :: "hp_spec option list" where
  "lr_scheduler_choices = [None]"

subsection \<open>The collaborators of the trial loop\<close>

text \<open>
  Modelled from the spec: the metric names are constants of \<open>_settings\<close>, which is not
  among the sources; section 6 of the specification names the two keys.
\<close>

definition AVERAGE_PRECISION_STAT_LABEL :: string where
  "AVERAGE_PRECISION_STAT_LABEL = ''average precision''"

definition AVERAGE_RECALL_STAT_LABEL :: string where
  "AVERAGE_RECALL_STAT_LABEL = ''average recall''"

type_synonym series = "real list"

text \<open>
  What \<open>main\<close> reads of a constructed optimizer is its \<open>defaults\<close> dict; of a
  scheduler, its \<open>__dict__\<close>, whose \<open>optimizer\<close> entry holds the optimizer object.
\<close>

record optimizer =
  defaults :: "(string, real) dict"

datatype attr = Number real | OptimizerObject optimizer

record lr_scheduler =
  attrs :: "(string, attr) dict"

text \<open>
  \<open>train.train_model\<close> returns a pair of a model state and a metrics dict, or raises.
\<close>

datatype outcome = Returned "(string, series) dict" | Raised exn

text \<open>
  The world outside \<open>main\<close>: the clock read at the start of trial \<open>i\<close>, the
  constructors of the optimizer and scheduler kinds (called with the kind name and the
  sampled keyword values), and the outcome of the training call made in trial \<open>i\<close>.
  The loop makes at most one training call per index, so a function of the index
  covers every dependence of the outcome on the call's arguments.

  The other calls \<open>main\<close> makes outside the \<open>try\<close> can raise as well; for each the
  world holds the exception it raises, if any:
  \<^item> \<open>prepare_error\<close>: lines 61 to 91, the bucket check, the S3 sync and the reading
    of the labels and of the datasets;
  \<^item> \<open>open_log_error\<close>: line 135, opening the log file in the logs directory, which
    \<open>main\<close> creates only at line 222;
  \<^item> \<open>model_error i\<close>: line 152 in trial \<open>i\<close>, looking the network up and constructing
    the model;
  \<^item> \<open>parameters_error i\<close>: line 156 in trial \<open>i\<close>, reading the trainable parameters;
  \<^item> \<open>optimizer_error i\<close>: lines 159 and 160 in trial \<open>i\<close>, binding the parameters
    and constructing the optimizer;
  \<^item> \<open>output_dir_error\<close>: line 222, creating the directory of the plots;
  \<^item> \<open>savefig_error label\<close>: lines 225 to 235 and 240 to 250, drawing and saving the
    plot of the metric \<open>label\<close>;
  \<^item> \<open>upload_error\<close>: lines 255 to 260, the upload of the three files when S3 is used.

  Reading the clock, printing, and writing a line to the opened log file are taken to
  return.
\<close>

record world =
  clock :: "nat \<Rightarrow> int"
  construct_optimizer :: "string \<Rightarrow> (string, real) dict \<Rightarrow> optimizer"
  construct_lr_scheduler :: "string \<Rightarrow> optimizer \<Rightarrow> (string, real) dict \<Rightarrow> lr_scheduler"
  train_model :: "nat \<Rightarrow> outcome"
  prepare_error :: "exn option"
  open_log_error :: "exn option"
  model_error :: "nat \<Rightarrow> exn option"
  parameters_error :: "nat \<Rightarrow> exn option"
  optimizer_error :: "nat \<Rightarrow> exn option"
  output_dir_error :: "exn option"
  savefig_error :: "string \<Rightarrow> exn option"
  upload_error :: "exn option"

record args =
  network :: string
  num_trials :: int

text \<open>
  Modelled from the spec: \<open>get_next\<close> of a bound \<open>Optimizer\<close> or \<open>LRScheduler\<close>
  (section 4.2, Materialize) samples the options and constructs the object from the
  sampled values and the bound target.
\<close>

definition Optimizer_get_next :: "world \<Rightarrow> hp_spec \<Rightarrow> rng \<Rightarrow> exn + (optimizer \<times> rng)" where
  "Optimizer_get_next w spec r =
     (case resolve_options (options spec) r of
        Inl e \<Rightarrow> Inl e
      | Inr (kw, r') \<Rightarrow> Inr (construct_optimizer w (name spec) kw, r'))"

definition LRScheduler_get_next ::
  "world \<Rightarrow> hp_spec \<Rightarrow> optimizer \<Rightarrow> rng \<Rightarrow> exn + (lr_scheduler \<times> rng)" where
  "LRScheduler_get_next w spec opt r =
     (case resolve_options (options spec) r of
        Inl e \<Rightarrow> Inl e
      | Inr (kw, r') \<Rightarrow> Inr (construct_lr_scheduler w (name spec) opt kw, r'))"

subsection \<open>The session state and the log\<close>

text \<open>
  Each line of the run log is \<^verbatim>\<open>"Trial [%d]: %s" % (trial_num, message)\<close>; the message
  is one of the format strings of \<open>main\<close> applied to its arguments, kept here as a
  constructor with those arguments.
\<close>

datatype message =
    StartTime int
  | ModelIs string
  | OptimizerChoice string
  | OptimizerProperties "(string, real) dict"
  | LRSchedulerChoice string
  | LRSchedulerProperties "(string, attr) dict"
  | TrainingFailed string
  | UserInitiatedTermination
  | StatLine string series

record session =
  log_file :: "(nat \<times> message) list"
  stat_totals :: "(string, (nat, series) dict) dict"
  random_state :: rng

definition log_and_print :: "nat \<Rightarrow> message \<Rightarrow> session \<Rightarrow> session" where
  "log_and_print trial_num message s = s\<lparr>log_file := log_file s @ [(trial_num, message)]\<rparr>"

text \<open>How control leaves one pass through the loop body, with the state at that point.\<close>

datatype ctl = Next session | Break session | Raise exn session

fun state_of :: "ctl \<Rightarrow> session" where
  "state_of (Next s) = s"
| "state_of (Break s) = s"
| "state_of (Raise e s) = s"

subsection \<open>The loop body\<close>

text \<open>
  Lines 158 to 162: pick the optimizer kind, bind the parameters and build the
  optimizer, log both. Nothing is logged before line 161, so an exception of lines 159
  and 160 leaves the log as it was.
\<close>

definition choose_optimizer ::
  "world \<Rightarrow> nat \<Rightarrow> session \<Rightarrow> (exn + optimizer) \<times> session" where
  "choose_optimizer w i s =
     (case random_choice optimizer_choices (random_state s) of
        Inl e \<Rightarrow> (Inl e, s)
      | Inr (optimizer_choice, r1) \<Rightarrow>
          (case optimizer_error w i of
             Some e \<Rightarrow> (Inl e, s\<lparr>random_state := r1\<rparr>)
           | None \<Rightarrow>
               (case Optimizer_get_next w optimizer_choice r1 of
                  Inl e \<Rightarrow> (Inl e, s\<lparr>random_state := r1\<rparr>)
                | Inr (opt, r2) \<Rightarrow>
                    (Inr opt,
                     log_and_print i (OptimizerProperties (defaults opt))
                       (log_and_print i (OptimizerChoice (name optimizer_choice))
                          (s\<lparr>random_state := r2\<rparr>))))))"

text \<open>
  Lines 164 to 181: pick the scheduler kind; when it is not \<open>None\<close>, build the
  scheduler and log its kind and its attributes other than \<open>optimizer\<close>.
\<close>

definition choose_lr_scheduler ::
  "world \<Rightarrow> nat \<Rightarrow> hp_spec option list \<Rightarrow> optimizer \<Rightarrow> session
     \<Rightarrow> (exn + lr_scheduler option) \<times> session" where
  "choose_lr_scheduler w i choices opt s =
     (case random_choice choices (random_state s) of
        Inl e \<Rightarrow> (Inl e, s)
      | Inr (None, r1) \<Rightarrow> (Inr None, s\<lparr>random_state := r1\<rparr>)
      | Inr (Some lr_scheduler_choice, r1) \<Rightarrow>
          (case LRScheduler_get_next w lr_scheduler_choice opt r1 of
             Inl e \<Rightarrow> (Inl e, s\<lparr>random_state := r1\<rparr>)
           | Inr (sched, r2) \<Rightarrow>
               (Inr (Some sched),
                log_and_print i
                  (LRSchedulerProperties (filter (\<lambda>(key, v). key \<noteq> ''optimizer'') (attrs sched)))
                  (log_and_print i (LRSchedulerChoice (name lr_scheduler_choice))
                     (s\<lparr>random_state := r2\<rparr>)))))"

text \<open>
  Lines 148 to 181: everything the loop body does before the \<open>try\<close>. None of it is
  guarded: an exception raised by the construction of the model (line 152, after the
  start time is logged), by the reading of its parameters (line 156, after the model
  line is logged) or by the construction of the optimizer leaves the loop body.
\<close>

definition trial_setup ::
  "args \<Rightarrow> world \<Rightarrow> nat \<Rightarrow> session \<Rightarrow> (exn + optimizer \<times> lr_scheduler option) \<times> session" where
  "trial_setup a w i s =
     (let s1 = log_and_print i (StartTime (clock w i)) s
      in case model_error w i of
           Some e \<Rightarrow> (Inl e, s1)
         | None \<Rightarrow>
             (let s2 = log_and_print i (ModelIs (network a)) s1
              in case parameters_error w i of
                   Some e \<Rightarrow> (Inl e, s2)
                 | None \<Rightarrow>
                     (case choose_optimizer w i s2 of
                        (Inl e, s3) \<Rightarrow> (Inl e, s3)
                      | (Inr opt, s3) \<Rightarrow>
                          (case choose_lr_scheduler w i lr_scheduler_choices opt s3 of
                             (Inl e, s4) \<Rightarrow> (Inl e, s4)
                           | (Inr sched, s4) \<Rightarrow> (Inr (opt, sched), s4)))))"

text \<open>
  \<open>stat_totals[label][i] = v\<close>: the outer read raises \<open>KeyError\<close> for an absent label.
\<close>

definition set_stat ::
  "string \<Rightarrow> nat \<Rightarrow> series \<Rightarrow> (string, (nat, series) dict) dict
     \<Rightarrow> exn + (string, (nat, series) dict) dict" where
  "set_stat label i v totals =
     (case getitem totals label of
        Inl e \<Rightarrow> Inl e
      | Inr d \<Rightarrow> Inr (AList.update label (AList.update i v d) totals))"

text \<open>
  Lines 201 to 217, reached when the training call returned: two log lines, each
  reading its metric from the returned dict, then the two stores into \<open>stat_totals\<close>
  (which read the same two metrics again).
\<close>

definition record_metrics :: "nat \<Rightarrow> (string, series) dict \<Rightarrow> session \<Rightarrow> ctl" where
  "record_metrics i metrics s =
     (case getitem metrics AVERAGE_PRECISION_STAT_LABEL of
        Inl e \<Rightarrow> Raise e s
      | Inr ap \<Rightarrow>
          (let s1 = log_and_print i (StatLine AVERAGE_PRECISION_STAT_LABEL ap) s
           in case getitem metrics AVERAGE_RECALL_STAT_LABEL of
                Inl e \<Rightarrow> Raise e s1
              | Inr ar \<Rightarrow>
                  (let s2 = log_and_print i (StatLine AVERAGE_RECALL_STAT_LABEL ar) s1
                   in case set_stat AVERAGE_PRECISION_STAT_LABEL i ap (stat_totals s2) of
                        Inl e \<Rightarrow> Raise e s2
                      | Inr t1 \<Rightarrow>
                          (case set_stat AVERAGE_RECALL_STAT_LABEL i ar t1 of
                             Inl e \<Rightarrow> Raise e (s2\<lparr>stat_totals := t1\<rparr>)
                           | Inr t2 \<Rightarrow> Next (s2\<lparr>stat_totals := t2\<rparr>)))))"

text \<open>
  Lines 183 to 217: the \<open>try\<close> around the training call with its two handlers, in the
  source's order, then the code after the \<open>try\<close>. An exception that neither handler
  names leaves the loop.
\<close>

fun after_training :: "nat \<Rightarrow> outcome \<Rightarrow> session \<Rightarrow> ctl" where
  "after_training i (Raised (RuntimeError err)) s = Next (log_and_print i (TrainingFailed err) s)"
| "after_training i (Raised KeyboardInterrupt) s = Break (log_and_print i UserInitiatedTermination s)"
| "after_training i (Raised e) s = Raise e s"
| "after_training i (Returned metrics) s = record_metrics i metrics s"

definition trial :: "args \<Rightarrow> world \<Rightarrow> nat \<Rightarrow> session \<Rightarrow> ctl" where
  "trial a w i s =
     (case trial_setup a w i s of
        (Inl e, s1) \<Rightarrow> Raise e s1
      | (Inr (opt, sched), s1) \<Rightarrow> after_training i (train_model w i) s1)"

text \<open>
  The \<open>for\<close> loop over the trial indices: \<open>continue\<close> and the end of the body go on
  with the next index, \<open>break\<close> and an exception leave the loop.
\<close>

fun trial_loop :: "args \<Rightarrow> world \<Rightarrow> nat list \<Rightarrow> session \<Rightarrow> ctl" where
  "trial_loop a w [] s = Next s"
| "trial_loop a w (i # rest_trials) s =
     (case trial a w i s of
        Next s' \<Rightarrow> trial_loop a w rest_trials s'
      | Break s' \<Rightarrow> Break s'
      | Raise e s' \<Rightarrow> Raise e s')"

subsection \<open>Reporting and \<open>main\<close>\<close>

text \<open>
  A plot holds one line per item of the metric's dict, in the dict's order, labelled
  with the trial index. The report is the closed log and the two saved plots.
\<close>

record plot =
  plot_title :: string
  plot_lines :: "(nat \<times> series) list"

record report =
  written_log :: "(nat \<times> message) list"
  plot_AP :: plot
  plot_AR :: plot

definition make_plot :: "string \<Rightarrow> session \<Rightarrow> exn + plot" where
  "make_plot label s =
     (case getitem (stat_totals s) label of
        Inl e \<Rightarrow> Inl e
      | Inr d \<Rightarrow> Inr \<lparr>plot_title = label, plot_lines = d\<rparr>)"

text \<open>
  Lines 219 to 260, in the source's order: create the directory of the plots, draw and
  save the precision plot, then the recall plot, close the log, upload. An exception
  of any of these calls ends \<open>main\<close>.
\<close>

definition finish :: "world \<Rightarrow> session \<Rightarrow> exn + report" where
  "finish w s =
     (case output_dir_error w of
        Some e \<Rightarrow> Inl e
      | None \<Rightarrow>
     (case make_plot AVERAGE_PRECISION_STAT_LABEL s of
        Inl e \<Rightarrow> Inl e
      | Inr p1 \<Rightarrow>
     (case savefig_error w AVERAGE_PRECISION_STAT_LABEL of
        Some e \<Rightarrow> Inl e
      | None \<Rightarrow>
     (case make_plot AVERAGE_RECALL_STAT_LABEL s of
        Inl e \<Rightarrow> Inl e
      | Inr p2 \<Rightarrow>
     (case savefig_error w AVERAGE_RECALL_STAT_LABEL of
        Some e \<Rightarrow> Inl e
      | None \<Rightarrow>
     (case upload_error w of
        Some e \<Rightarrow> Inl e
      | None \<Rightarrow> Inr \<lparr>written_log = log_file s, plot_AP = p1, plot_AR = p2\<rparr>))))))"

definition init_session :: "rng \<Rightarrow> session" where
  "init_session r =
     \<lparr>log_file = [],
      stat_totals =
        AList.update AVERAGE_RECALL_STAT_LABEL []
          (AList.update AVERAGE_PRECISION_STAT_LABEL [] []),
      random_state = r\<rparr>"

text \<open>\<open>range(args.num_trials)\<close> is empty for a count of zero or less.\<close>

definition trial_indices :: "args \<Rightarrow> nat list" where
  "trial_indices a = [0..<nat (num_trials a)]"

text \<open>
  \<open>main\<close>: the preparation and the opening of the log file come before the loop and
  are not guarded either; the report follows the loop however it was left, unless an
  exception left it.
\<close>

definition main :: "args \<Rightarrow> world \<Rightarrow> rng \<Rightarrow> exn + report" where
  "main a w r =
     (case prepare_error w of
        Some e \<Rightarrow> Inl e
      | None \<Rightarrow>
          (case open_log_error w of
             Some e \<Rightarrow> Inl e
           | None \<Rightarrow>
               (case trial_loop a w (trial_indices a) (init_session r) of
                  Next s \<Rightarrow> finish w s
                | Break s \<Rightarrow> finish w s
                | Raise e s \<Rightarrow> Inl e)))"

text \<open>The trials a session has started: the indices that appear in its log.\<close>

definition started :: "session \<Rightarrow> nat set" where
  "started s = fst ` set (log_file s)"

subsection \<open>Notions used to state the properties of a session\<close>

text \<open>
  The entry of the aggregate metrics under a metric name and a trial index, if any;
  and the sequence a training call returned for a metric, if it returned.
\<close>

definition aggregate :: "session \<Rightarrow> string \<Rightarrow> nat \<Rightarrow> series option" where
  "aggregate s label i =
     (case map_of (stat_totals s) label of None \<Rightarrow> None | Some d \<Rightarrow> map_of d i)"

fun returned_metric :: "outcome \<Rightarrow> string \<Rightarrow> series option" where
  "returned_metric (Returned metrics) label = map_of metrics label"
| "returned_metric (Raised e) label = None"

text \<open>
  The outcomes of a training call by what they do to the session: a cancellation; an
  exception that leaves the loop (one that neither handler names, or the \<open>KeyError\<close>
  of a returned dict that lacks one of the two metrics); every other outcome lets the
  loop go on.
\<close>

fun cancels :: "outcome \<Rightarrow> bool" where
  "cancels (Raised KeyboardInterrupt) = True"
| "cancels out = False"

fun escaping :: "outcome \<Rightarrow> exn option" where
  "escaping (Raised (RuntimeError err)) = None"
| "escaping (Raised KeyboardInterrupt) = None"
| "escaping (Raised e) = Some e"
| "escaping (Returned metrics) =
     (if map_of metrics AVERAGE_PRECISION_STAT_LABEL = None
        then Some (KeyError AVERAGE_PRECISION_STAT_LABEL)
      else if map_of metrics AVERAGE_RECALL_STAT_LABEL = None
        then Some (KeyError AVERAGE_RECALL_STAT_LABEL)
      else None)"

definition continues :: "outcome \<Rightarrow> bool" where
  "continues out = (escaping out = None \<and> \<not> cancels out)"

text \<open>
  The environment of a session: the exception with which the unguarded setup of trial
  \<open>i\<close> ends, if any; whether the session gets as far as its loop; whether the
  reporting calls all return. A trial as a whole lets the loop go on, is cancelled,
  or ends with an exception that leaves the loop.
\<close>

definition setup_error :: "world \<Rightarrow> nat \<Rightarrow> exn option" where
  "setup_error w i =
     (case model_error w i of
        Some e \<Rightarrow> Some e
      | None \<Rightarrow>
          (case parameters_error w i of
             Some e \<Rightarrow> Some e
           | None \<Rightarrow> optimizer_error w i))"

definition setup_succeeds :: "world \<Rightarrow> nat \<Rightarrow> bool" where
  "setup_succeeds w i = (setup_error w i = None)"

definition session_starts :: "world \<Rightarrow> bool" where
  "session_starts w = (prepare_error w = None \<and> open_log_error w = None)"

definition report_succeeds :: "world \<Rightarrow> bool" where
  "report_succeeds w =
     (output_dir_error w = None
      \<and> savefig_error w AVERAGE_PRECISION_STAT_LABEL = None
      \<and> savefig_error w AVERAGE_RECALL_STAT_LABEL = None
      \<and> upload_error w = None)"

definition escapes_at :: "world \<Rightarrow> nat \<Rightarrow> exn option" where
  "escapes_at w i =
     (case setup_error w i of Some e \<Rightarrow> Some e | None \<Rightarrow> escaping (train_model w i))"

definition goes_on :: "world \<Rightarrow> nat \<Rightarrow> bool" where
  "goes_on w i = (setup_succeeds w i \<and> continues (train_model w i))"

definition cancelled_at :: "world \<Rightarrow> nat \<Rightarrow> bool" where
  "cancelled_at w i = (setup_succeeds w i \<and> cancels (train_model w i))"

text \<open>
  What the constructors of \<open>torch.optim\<close> do with their keyword arguments: each value
  given is stored under its name in the \<open>defaults\<close> of the constructed optimizer.
\<close>

definition keeps_keywords :: "world \<Rightarrow> bool" where
  "keeps_keywords w = (\<forall>kind kw. set kw \<subseteq> set (defaults (construct_optimizer w kind kw)))"

text \<open>
  The invariant of the loop: the random source is well formed, \<open>stat_totals\<close> holds
  its two metric dicts, and each dict has, for every started trial whose training call
  returned, the sequence returned for its metric, and nothing else.
\<close>

definition session_inv :: "world \<Rightarrow> session \<Rightarrow> bool" where
  "session_inv w s =
     (wf_rng (random_state s)
      \<and> (\<exists>d1 d2. stat_totals s =
            [(AVERAGE_PRECISION_STAT_LABEL, d1), (AVERAGE_RECALL_STAT_LABEL, d2)])
      \<and> (\<forall>i. aggregate s AVERAGE_PRECISION_STAT_LABEL i =
            (if i \<in> started s
             then returned_metric (train_model w i) AVERAGE_PRECISION_STAT_LABEL else None))
      \<and> (\<forall>i. aggregate s AVERAGE_RECALL_STAT_LABEL i =
            (if i \<in> started s
             then returned_metric (train_model w i) AVERAGE_RECALL_STAT_LABEL else None)))"

section \<open>Labels and detections: \<open>vision/predict/predict_spin.py\<close> and \<open>vision/train/visualize.py\<close>\<close>

subsection \<open>Reading the label file\<close>

text \<open>
  A Python \<open>str\<close> is a sequence of code points. \<open>str.splitlines()\<close> splits at the
  line boundaries \<open>\n\<close>, \<open>\r\<close>, \<open>\r\n\<close> (one boundary), \<open>\v\<close>, \<open>\f\<close>, \<open>\x1c\<close>,
  \<open>\x1d\<close>, \<open>\x1e\<close>, \<open>\x85\<close>, U+2028 and U+2029, drops the boundaries, and yields
  no empty last line after a final boundary.
\<close>

type_synonym str = "nat list"

definition is_line_boundary :: "nat \<Rightarrow> bool" where
  "is_line_boundary c = (c \<in> {10, 11, 12, 13, 28, 29, 30, 133, 8232, 8233})"

fun split_from :: "str \<Rightarrow> str \<Rightarrow> str list" where
  "split_from cur [] = (if cur = [] then [] else [cur])"
| "split_from cur [c] = (if is_line_boundary c then [cur] else [cur @ [c]])"
| "split_from cur (c # d # cs) =
     (if c = 13 \<and> d = 10 then cur # split_from [] cs
      else if is_line_boundary c then cur # split_from [] (d # cs)
      else split_from (cur @ [c]) (d # cs))"

definition splitlines :: "str \<Rightarrow> str list" where
  "splitlines t = split_from [] t"

definition background :: str where
  "background = map of_char ''background''"

text \<open>
  Lines 213 to 226 of \<open>predict_spin.py\<close> and 65 to 78 of \<open>visualize.py\<close>, the same
  code: the label file is \<open>None\<close> when \<open>os.path.isfile\<close> is false, and its text
  otherwise. The result is the message printed before the early \<open>return\<close>, or the
  label list after \<open>labels.insert(0, "background")\<close>.
\<close>

definition read_labels :: "str option \<Rightarrow> string + str list" where
  "read_labels label_file =
     (case label_file of
        None \<Rightarrow> Inl ''Missing file''
      | Some content \<Rightarrow>
          (let labels = splitlines content
           in if length labels = 0 then Inl ''No label categories found''
              else Inr (background # labels)))"

text \<open>
  What a run hands on: the class count given to the model constructor and the label
  list given to \<open>draw_bboxes\<close>; or the message of the early \<open>return\<close> it took, before
  which no model is constructed.
\<close>

record handed =
  model_num_classes :: nat
  drawn_labels :: "str list"

datatype run = ReturnedEarly string | Constructed handed

text \<open>
  \<open>display_images\<close> of \<open>predict_spin.py\<close> constructs the model with
  \<open>len(labels)\<close> classes and draws with \<open>labels\<close>.
\<close>

definition display_images :: "str list \<Rightarrow> handed" where
  "display_images labels = \<lparr>model_num_classes = length labels, drawn_labels = labels\<rparr>"

record predict_env =
  label_file :: "str option"
  saved_model_file_path :: "string option"
  num_cameras :: nat

definition predict_spin_main :: "predict_env \<Rightarrow> run" where
  "predict_spin_main env =
     (case read_labels (label_file env) of
        Inl msg \<Rightarrow> ReturnedEarly msg
      | Inr labels \<Rightarrow>
          if saved_model_file_path env = None then ReturnedEarly ''No saved model state found''
          else if num_cameras env = 0 then ReturnedEarly ''Not enough cameras!''
          else Constructed (display_images labels))"

record visualize_env =
  vis_label_file :: "str option"
  manifest_file_path :: "string option"
  vis_saved_model_file_path :: "string option"

definition visualize_main :: "visualize_env \<Rightarrow> run" where
  "visualize_main env =
     (case read_labels (vis_label_file env) of
        Inl msg \<Rightarrow> ReturnedEarly msg
      | Inr labels \<Rightarrow>
          if manifest_file_path env = None then ReturnedEarly ''No manifest file found''
          else if vis_saved_model_file_path env = None then ReturnedEarly ''No saved model state found''
          else (let num_classes = length labels
                in Constructed \<lparr>model_num_classes = num_classes, drawn_labels = labels\<rparr>))"

subsection \<open>Filtering the detections\<close>

text \<open>
  The model's output for one image: three tensors, read by index. Reading a tensor
  past its end raises \<open>IndexError\<close>.
\<close>

type_synonym box = "real \<times> real \<times> real \<times> real"

record outputs =
  boxes :: "box list"
  labels :: "int list"
  scores :: "real list"

text \<open>
  Lines 124 to 128 of \<open>predict_spin.py\<close> and 182 to 186 of \<open>visualize.py\<close>: the list
  comprehension over \<open>range(len(boxes))\<close>. The condition reads the score first and
  the label only when the score passes; the row is built after the condition.
\<close>

fun filter_rows :: "outputs \<Rightarrow> real \<Rightarrow> nat list \<Rightarrow> exn + (box \<times> int \<times> real) list" where
  "filter_rows out threshold [] = Inr []"
| "filter_rows out threshold (j # js) =
     (if length (scores out) \<le> j then Inl IndexError
      else if scores out ! j > threshold then
        (if length (labels out) \<le> j then Inl IndexError
         else if labels out ! j > 0 then
           (case filter_rows out threshold js of
              Inl e \<Rightarrow> Inl e
            | Inr rows \<Rightarrow> Inr ((boxes out ! j, labels out ! j, scores out ! j) # rows))
         else filter_rows out threshold js)
      else filter_rows out threshold js)"

definition filtered_output :: "outputs \<Rightarrow> real \<Rightarrow> exn + (box \<times> int \<times> real) list" where
  "filtered_output out threshold = filter_rows out threshold [0..<length (boxes out)]"

text \<open>
  \<open>zip(*rows)\<close> yields one tuple per position of the rows, and nothing for no rows;
  assigning it to three names raises \<open>ValueError\<close> unless it yields exactly three.
\<close>

datatype column = Boxes "box list" | Labels "int list" | Scores "real list"

definition zip_star :: "(box \<times> int \<times> real) list \<Rightarrow> column list" where
  "zip_star rows =
     (if rows = [] then []
      else [Boxes (map fst rows), Labels (map (fst \<circ> snd) rows), Scores (map (snd \<circ> snd) rows)])"

fun unpack3 :: "column list \<Rightarrow> exn + (column \<times> column \<times> column)" where
  "unpack3 [a, b, c] = Inr (a, b, c)"
| "unpack3 cols = Inl ValueError"

text \<open>
  Lines 130 to 132 (188 to 190): the guarded unzip,
  \<^verbatim>\<open>zip(*filtered_output) if len(filtered_output) > 0 else ([], [], [])\<close>.
\<close>

definition unzip_step :: "(box \<times> int \<times> real) list \<Rightarrow> exn + (column \<times> column \<times> column)" where
  "unzip_step rows =
     unpack3 (if length rows > 0 then zip_star rows else [Boxes [], Labels [], Scores []])"

text \<open>
  The arguments with which \<open>draw_bboxes\<close> is called for the inferred detections; the
  function itself belongs to \<open>_image_utils\<close> and is not modelled.
\<close>

record draw_call =
  inference_boxes :: column
  inference_labels :: column
  inference_scores :: column
  label_names :: "str list"

definition draw_inference :: "str list \<Rightarrow> real \<Rightarrow> outputs \<Rightarrow> exn + draw_call" where
  "draw_inference label_list threshold out =
     (case filtered_output out threshold of
        Inl e \<Rightarrow> Inl e
      | Inr rows \<Rightarrow>
          (case unzip_step rows of
             Inl e \<Rightarrow> Inl e
           | Inr (bs, ls, ss) \<Rightarrow>
               Inr \<lparr>inference_boxes = bs, inference_labels = ls, inference_scores = ss,
                    label_names = label_list\<rparr>))"

section \<open>Example inputs\<close>

text \<open>
  Concrete collaborators on which the theorems below are evaluated. The optimizer
  constructor keeps the keyword values it is given and adds a hyperparameter of its
  own, as \<open>torch.optim.SGD\<close> does with \<open>dampening\<close>; the scheduler constructor stores
  the optimizer and the keyword values as attributes. In the example world no call
  outside the \<open>try\<close> raises; the worlds in which one does are made from it by a record
  update.
\<close>

definition example_optimizer :: "string \<Rightarrow> (string, real) dict \<Rightarrow> optimizer" where
  "example_optimizer kind kw = \<lparr>defaults = kw @ [(''dampening'', 0)]\<rparr>"

definition example_lr_scheduler :: "string \<Rightarrow> optimizer \<Rightarrow> (string, real) dict \<Rightarrow> lr_scheduler" where
  "example_lr_scheduler kind opt kw =
     \<lparr>attrs = (''optimizer'', OptimizerObject opt) # map (\<lambda>(k, v). (k, Number v)) kw\<rparr>"

definition example_world :: "(nat \<Rightarrow> outcome) \<Rightarrow> world" where
  "example_world f =
     \<lparr>clock = (\<lambda>i. 1600000000 + int i),
      construct_optimizer = example_optimizer,
      construct_lr_scheduler = example_lr_scheduler,
      train_model = f,
      prepare_error = None,
      open_log_error = None,
      model_error = (\<lambda>i. None),
      parameters_error = (\<lambda>i. None),
      optimizer_error = (\<lambda>i. None),
      output_dir_error = None,
      savefig_error = (\<lambda>label. None),
      upload_error = None\<rparr>"

definition example_metrics :: "(string, series) dict" where
  "example_metrics =
     [(AVERAGE_PRECISION_STAT_LABEL, [0.25, 0.5]), (AVERAGE_RECALL_STAT_LABEL, [0.5, 0.75])]"

definition example_schedulers :: "hp_spec option list" where
  "example_schedulers =
     [Some \<lparr>name = ''StepLR'', options = [(''gamma'', RandomHPChoices [Literal 0.1, Literal 0.3])]\<rparr>]"

text \<open>
  A label file with the two lines \<open>cat\<close> and \<open>dog\<close>, each ended by \<open>\n\<close>; and the
  model's outputs for two images: three detections of which one passes the filter,
  and two detections of which none does.
\<close>

definition example_label_text :: str where
  "example_label_text = [99, 97, 116, 10, 100, 111, 103, 10]"

definition example_outputs :: outputs where
  "example_outputs =
     \<lparr>boxes = [(10, 10, 50, 60), (20, 30, 40, 80), (5, 5, 15, 15)],
      labels = [1, 0, 2],
      scores = [0.9, 0.8, 0.3]\<rparr>"

definition example_outputs_none :: outputs where
  "example_outputs_none =
     \<lparr>boxes = [(20, 30, 40, 80), (5, 5, 15, 15)],
      labels = [0, 2],
      scores = [0.8, 0.3]\<rparr>"

definition example_args :: "int \<Rightarrow> args" where
  "example_args n = \<lparr>network = ''fasterrcnn_resnet50'', num_trials = n\<rparr>"

section \<open>Sampling within bounds\<close>

lemma wf_rng_rest: "wf_rng r \<Longrightarrow> wf_rng (rest r)"
  by (simp add: wf_rng_def rest_def)

lemma exp_uniform_bounds:
  fixes a b u :: real
  assumes "0 < a" "a \<le> b" "0 \<le> u" "u \<le> 1"
  shows "a \<le> exp (ln a + (ln b - ln a) * u) \<and> exp (ln a + (ln b - ln a) * u) \<le> b"
proof -
  have "ln a \<le> ln b" using assms by (simp add: ln_mono)
  then have d: "0 \<le> ln b - ln a" by simp
  have lo: "ln a \<le> ln a + (ln b - ln a) * u" using d assms by simp
  have "(ln b - ln a) * u \<le> (ln b - ln a) * 1"
    using d assms by (intro mult_left_mono) auto
  then have hi: "ln a + (ln b - ln a) * u \<le> ln b" by simp
  have "exp (ln a) \<le> exp (ln a + (ln b - ln a) * u)" using lo by simp
  moreover have "exp (ln a + (ln b - ln a) * u) \<le> exp (ln b)" using hi by simp
  ultimately show ?thesis using assms by simp
qed

lemma choice_index_lt:
  assumes "0 \<le> u" "u < 1" "0 < n"
  shows "nat \<lfloor>u * real n\<rfloor> < n"
proof -
  have "u * real n < real n" using assms by simp
  then have "\<lfloor>u * real n\<rfloor> < int n" by linarith
  then show ?thesis using assms by linarith
qed

lemma get_next_lr:
  assumes "wf_rng r"
  shows "\<exists>v. get_next (RandomExponential 0.0005 0.1) r = Inr (v, rest r) \<and> 0.0005 \<le> v \<and> v \<le> 0.1"
proof -
  have u: "0 \<le> r 0" "r 0 \<le> 1" using assms by (auto simp: wf_rng_def less_imp_le)
  have "(0.0005::real) \<le> exp (ln 0.0005 + (ln 0.1 - ln 0.0005) * r 0) \<and> exp (ln 0.0005 + (ln 0.1 - ln 0.0005) * r 0) \<le> 0.1"
    using exp_uniform_bounds[of "0.0005" "0.1" "r 0"] u by simp
  then show ?thesis by (simp add: uniform_def)
qed

lemma get_next_momentum:
  assumes "wf_rng r"
  shows "\<exists>v r'. get_next (RandomHPChoices [Literal 0, Nested (RandomExponentialDiff 1.0 0.01 0.5)]) r = Inr (v, r')
            \<and> wf_rng r' \<and> (v = 0 \<or> 0.5 \<le> v \<and> v \<le> 0.99)"
proof -
  have u: "0 \<le> r 0" "r 0 < 1" using assms by (auto simp: wf_rng_def)
  have w1: "wf_rng (rest r)" using assms by (rule wf_rng_rest)
  have w2: "wf_rng (rest (rest r))" using w1 by (rule wf_rng_rest)
  define k where "k = nat \<lfloor>r 0 * real (2::nat)\<rfloor>"
  have "k < 2" unfolding k_def using choice_index_lt[OF u, of 2] by simp
  then consider "k = 0" | "k = 1" by linarith
  then show ?thesis
  proof cases
    case 1
    then show ?thesis using w1 by (simp add: k_def[symmetric, simplified])
  next
    case 2
    have v: "0 \<le> rest r 0" "rest r 0 \<le> 1" using w1 by (auto simp: wf_rng_def less_imp_le)
    have b: "(0.01::real) \<le> exp (ln 0.01 + (ln 0.5 - ln 0.01) * rest r 0) \<and> exp (ln 0.01 + (ln 0.5 - ln 0.01) * rest r 0) \<le> 0.5"
      using exp_uniform_bounds[of "0.01" "0.5" "rest r 0"] v by simp
    show ?thesis using 2 w2 b by (simp add: k_def[symmetric, simplified] uniform_def)
  qed
qed


lemma get_next_weight_decay:
  assumes "wf_rng r"
  shows "\<exists>v. get_next (RandomHPChoices [Literal 0, Literal 0.01, Literal 0.0001]) r = Inr (v, rest r)"
proof -
  have u: "0 \<le> r 0" "r 0 < 1" using assms by (auto simp: wf_rng_def)
  define k where "k = nat \<lfloor>r 0 * real (3::nat)\<rfloor>"
  have "k < 3" unfolding k_def using choice_index_lt[OF u, of 3] by simp
  then consider "k = 0" | "k = 1" | "k = 2" by linarith
  then show ?thesis
  proof cases
    case 1
    then have "get_next (RandomHPChoices [Literal 0, Literal 0.01, Literal 0.0001]) r = Inr (0, rest r)"
      by (simp add: k_def[symmetric, simplified])
    then show ?thesis by blast
  next
    case 2
    then have "get_next (RandomHPChoices [Literal 0, Literal 0.01, Literal 0.0001]) r = Inr (0.01, rest r)"
      by (simp add: k_def[symmetric, simplified])
    then show ?thesis by blast
  next
    case 3
    then have "get_next (RandomHPChoices [Literal 0, Literal 0.01, Literal 0.0001]) r = Inr (0.0001, rest r)"
      by (simp add: k_def[symmetric, simplified] numeral_2_eq_2)
    then show ?thesis by blast
  qed
qed

lemma resolve_options_SGD:
  assumes "wf_rng r"
  shows "\<exists>lr momentum weight_decay r'.
           resolve_options (options SGD) r =
             Inr ([(''lr'', lr), (''momentum'', momentum), (''weight_decay'', weight_decay)], r')
           \<and> wf_rng r' \<and> 0.0005 \<le> lr \<and> lr \<le> 0.1
           \<and> (momentum = 0 \<or> 0.5 \<le> momentum \<and> momentum \<le> 0.99)"
proof -
  obtain lr where lr: "get_next (RandomExponential 0.0005 0.1) r = Inr (lr, rest r)"
      "0.0005 \<le> lr" "lr \<le> 0.1"
    using get_next_lr[OF assms] by blast
  have w1: "wf_rng (rest r)" using assms by (rule wf_rng_rest)
  obtain mo r2 where mo:
      "get_next (RandomHPChoices [Literal 0, Nested (RandomExponentialDiff 1.0 0.01 0.5)]) (rest r) = Inr (mo, r2)"
      "wf_rng r2" "mo = 0 \<or> 0.5 \<le> mo \<and> mo \<le> 0.99"
    using get_next_momentum[OF w1] by blast
  obtain wd where wd:
      "get_next (RandomHPChoices [Literal 0, Literal 0.01, Literal 0.0001]) r2 = Inr (wd, rest r2)"
    using get_next_weight_decay[OF mo(2)] by blast
  have "resolve_options (options SGD) r =
          Inr ([(''lr'', lr), (''momentum'', mo), (''weight_decay'', wd)], rest r2)"
    unfolding SGD_def using lr(1) mo(1) wd by simp
  moreover have "wf_rng (rest r2)" using mo(2) by (rule wf_rng_rest)
  ultimately show ?thesis using lr(2,3) mo(3) by blast
qed

lemma resolve_options_Adam:
  assumes "wf_rng r"
  shows "\<exists>kw r'. resolve_options
            [(''lr'', RandomExponential 0.0005 0.1),
             (''weight_decay'', RandomHPChoices [Literal 0, Literal 0.01, Literal 0.0001])] r = Inr (kw, r')
           \<and> wf_rng r'"
proof -
  obtain lr where lr: "get_next (RandomExponential 0.0005 0.1) r = Inr (lr, rest r)"
    using get_next_lr[OF assms] by blast
  have w1: "wf_rng (rest r)" using assms by (rule wf_rng_rest)
  obtain wd where wd:
      "get_next (RandomHPChoices [Literal 0, Literal 0.01, Literal 0.0001]) (rest r) = Inr (wd, rest (rest r))"
    using get_next_weight_decay[OF w1] by blast
  have "resolve_options
            [(''lr'', RandomExponential 0.0005 0.1),
             (''weight_decay'', RandomHPChoices [Literal 0, Literal 0.01, Literal 0.0001])] r
        = Inr ([(''lr'', lr), (''weight_decay'', wd)], rest (rest r))"
    using lr wd by simp
  moreover have "wf_rng (rest (rest r))" using w1 by (rule wf_rng_rest)
  ultimately show ?thesis by blast
qed

lemma resolve_options_choices:
  assumes "wf_rng r" "spec \<in> set optimizer_choices"
  shows "\<exists>kw r'. resolve_options (options spec) r = Inr (kw, r') \<and> wf_rng r'"
proof -
  consider "spec = SGD" | "spec = Adam" | "spec = AdamW"
    using assms(2) by (auto simp: optimizer_choices_def)
  then show ?thesis
  proof cases
    case 1
    then show ?thesis using resolve_options_SGD[OF assms(1)] by blast
  next
    case 2
    then show ?thesis using resolve_options_Adam[OF assms(1)] by (simp add: Adam_def)
  next
    case 3
    then show ?thesis using resolve_options_Adam[OF assms(1)] by (simp add: AdamW_def)
  qed
qed

lemma random_choice_in_range:
  assumes "wf_rng r" "xs \<noteq> []"
  shows "\<exists>x. random_choice xs r = Inr (x, rest r) \<and> x \<in> set xs"
proof -
  have u: "0 \<le> r 0" "r 0 < 1" using assms by (auto simp: wf_rng_def)
  have "nat \<lfloor>r 0 * real (length xs)\<rfloor> < length xs"
    using choice_index_lt[OF u, of "length xs"] assms(2) by simp
  then show ?thesis by (simp add: random_choice_def Let_def)
qed

lemma setup_succeeds_fields:
  "setup_succeeds w i \<longleftrightarrow>
     model_error w i = None \<and> parameters_error w i = None \<and> optimizer_error w i = None"
  by (auto simp: setup_succeeds_def setup_error_def split: option.splits)

lemma choose_optimizer_ok:
  assumes "wf_rng (random_state s)" and "optimizer_error w i = None"
  shows "\<exists>spec kw r'.
           spec \<in> set optimizer_choices
           \<and> resolve_options (options spec) (rest (random_state s)) = Inr (kw, r')
           \<and> wf_rng r'
           \<and> choose_optimizer w i s =
               (Inr (construct_optimizer w (name spec) kw),
                s\<lparr>log_file := log_file s @
                     [(i, OptimizerChoice (name spec)),
                      (i, OptimizerProperties (defaults (construct_optimizer w (name spec) kw)))],
                   random_state := r'\<rparr>)"
proof -
  obtain spec where spec: "random_choice optimizer_choices (random_state s) = Inr (spec, rest (random_state s))"
      "spec \<in> set optimizer_choices"
    using random_choice_in_range[OF assms(1), of optimizer_choices] by (auto simp: optimizer_choices_def)
  have w1: "wf_rng (rest (random_state s))" using assms(1) by (rule wf_rng_rest)
  obtain kw r' where kw: "resolve_options (options spec) (rest (random_state s)) = Inr (kw, r')" "wf_rng r'"
    using resolve_options_choices[OF w1 spec(2)] by blast
  have "choose_optimizer w i s =
               (Inr (construct_optimizer w (name spec) kw),
                s\<lparr>log_file := log_file s @
                     [(i, OptimizerChoice (name spec)),
                      (i, OptimizerProperties (defaults (construct_optimizer w (name spec) kw)))],
                   random_state := r'\<rparr>)"
    using spec(1) kw(1) assms(2)
    by (simp add: choose_optimizer_def Optimizer_get_next_def log_and_print_def)
  then show ?thesis using spec(2) kw by blast
qed

lemma choose_lr_scheduler_none:
  assumes "wf_rng (random_state s)"
  shows "choose_lr_scheduler w i lr_scheduler_choices opt s =
           (Inr None, s\<lparr>random_state := rest (random_state s)\<rparr>)"
proof -
  obtain x where x: "random_choice lr_scheduler_choices (random_state s) = Inr (x, rest (random_state s))"
      "x \<in> set lr_scheduler_choices"
    using random_choice_in_range[OF assms, of lr_scheduler_choices] by (auto simp: lr_scheduler_choices_def)
  then have "x = None" by (simp add: lr_scheduler_choices_def)
  then show ?thesis using x(1) by (simp add: choose_lr_scheduler_def)
qed

lemma trial_setup_ok:
  assumes "wf_rng (random_state s)" and "setup_succeeds w i"
  shows "\<exists>spec kw r1 r'.
           spec \<in> set optimizer_choices
           \<and> resolve_options (options spec) (rest (random_state s)) = Inr (kw, r1)
           \<and> wf_rng r'
           \<and> trial_setup a w i s =
               (Inr (construct_optimizer w (name spec) kw, None),
                s\<lparr>log_file := log_file s @
                     [(i, StartTime (clock w i)),
                      (i, ModelIs (network a)),
                      (i, OptimizerChoice (name spec)),
                      (i, OptimizerProperties (defaults (construct_optimizer w (name spec) kw)))],
                   random_state := r'\<rparr>)"
proof -
  define s2 where "s2 = log_and_print i (ModelIs (network a)) (log_and_print i (StartTime (clock w i)) s)"
  have r2: "random_state s2 = random_state s" by (simp add: s2_def log_and_print_def)
  then have w2: "wf_rng (random_state s2)" using assms(1) by simp
  have ok: "model_error w i = None" "parameters_error w i = None" "optimizer_error w i = None"
    using assms(2) by (simp_all add: setup_succeeds_fields)
  obtain spec kw r1 where c:
      "spec \<in> set optimizer_choices"
      "resolve_options (options spec) (rest (random_state s2)) = Inr (kw, r1)"
      "wf_rng r1"
      "choose_optimizer w i s2 =
               (Inr (construct_optimizer w (name spec) kw),
                s2\<lparr>log_file := log_file s2 @
                     [(i, OptimizerChoice (name spec)),
                      (i, OptimizerProperties (defaults (construct_optimizer w (name spec) kw)))],
                   random_state := r1\<rparr>)"
    using choose_optimizer_ok[OF w2 ok(3)] by blast
  define s3 where "s3 = s2\<lparr>log_file := log_file s2 @
                     [(i, OptimizerChoice (name spec)),
                      (i, OptimizerProperties (defaults (construct_optimizer w (name spec) kw)))],
                   random_state := r1\<rparr>"
  have w3: "wf_rng (random_state s3)" using c(3) by (simp add: s3_def)
  have l: "choose_lr_scheduler w i lr_scheduler_choices (construct_optimizer w (name spec) kw) s3
             = (Inr None, s3\<lparr>random_state := rest (random_state s3)\<rparr>)"
    using choose_lr_scheduler_none[OF w3] .
  have "trial_setup a w i s =
          (Inr (construct_optimizer w (name spec) kw, None), s3\<lparr>random_state := rest (random_state s3)\<rparr>)"
    using c(4) l ok(1,2) unfolding trial_setup_def Let_def s2_def[symmetric] s3_def[symmetric]
    by simp
  moreover have "s3\<lparr>random_state := rest (random_state s3)\<rparr> =
       s\<lparr>log_file := log_file s @
                     [(i, StartTime (clock w i)),
                      (i, ModelIs (network a)),
                      (i, OptimizerChoice (name spec)),
                      (i, OptimizerProperties (defaults (construct_optimizer w (name spec) kw)))],
                   random_state := rest r1\<rparr>"
    by (simp add: s3_def s2_def log_and_print_def)
  moreover have "wf_rng (rest r1)" using c(3) by (rule wf_rng_rest)
  ultimately show ?thesis using c(1,2) r2 by fastforce
qed

text \<open>
  C8. Materializing the \<open>SGD\<close> spec declared in \<open>main\<close>
  (\<open>lr\<close> from \<open>RandomExponential(0.0005, 0.1)\<close>, \<open>momentum\<close> from
  \<open>RandomHPChoices([0, RandomExponentialDiff(1.0, 0.01, 0.5)])\<close>) with a random source
  whose draws lie in \<open>[0, 1)\<close> never raises, hands the constructor exactly the three
  sampled options, and the sampled values satisfy \<open>0.0005 \<le> lr \<le> 0.1\<close> and
  \<open>momentum = 0\<close> or \<open>0.5 \<le> momentum \<le> 0.99\<close>. The sampling functions are those
  of the specification, over the reals.
\<close>

theorem C8_SGD_within_bounds:
  assumes "wf_rng r"
  shows "\<exists>lr momentum weight_decay r'.
           Optimizer_get_next w SGD r =
             Inr (construct_optimizer w ''SGD''
                    [(''lr'', lr), (''momentum'', momentum), (''weight_decay'', weight_decay)], r')
           \<and> 0.0005 \<le> lr \<and> lr \<le> 0.1
           \<and> (momentum = 0 \<or> 0.5 \<le> momentum \<and> momentum \<le> 0.99)"
proof -
  obtain lr momentum weight_decay r' where m:
      "resolve_options (options SGD) r =
         Inr ([(''lr'', lr), (''momentum'', momentum), (''weight_decay'', weight_decay)], r')"
      "0.0005 \<le> lr" "lr \<le> 0.1" "momentum = 0 \<or> 0.5 \<le> momentum \<and> momentum \<le> 0.99"
    using resolve_options_SGD[OF assms] by blast
  have "Optimizer_get_next w SGD r =
          Inr (construct_optimizer w ''SGD''
                 [(''lr'', lr), (''momentum'', momentum), (''weight_decay'', weight_decay)], r')"
    using m(1) by (simp add: Optimizer_get_next_def) (simp add: SGD_def)
  then show ?thesis using m(2,3,4) by blast
qed

theorem C8_SGD_within_bounds_witness:
  "wf_rng (\<lambda>n. 0)
   \<and> (\<exists>lr momentum weight_decay r'.
         Optimizer_get_next (example_world (\<lambda>i. Returned example_metrics)) SGD (\<lambda>n. 0) =
           Inr (construct_optimizer (example_world (\<lambda>i. Returned example_metrics)) ''SGD''
                  [(''lr'', lr), (''momentum'', momentum), (''weight_decay'', weight_decay)], r')
         \<and> 0.0005 \<le> lr \<and> lr \<le> 0.1
         \<and> (momentum = 0 \<or> 0.5 \<le> momentum \<and> momentum \<le> 0.99))
   \<and> resolve_options (options SGD) (\<lambda>n. 0)
       = Inr ([(''lr'', 0.0005), (''momentum'', 0), (''weight_decay'', 0)], \<lambda>n. 0)"
proof -
  have h: "wf_rng (\<lambda>n. 0)" by (simp add: wf_rng_def)
  have e: "resolve_options (options SGD) (\<lambda>n. 0)
       = Inr ([(''lr'', 0.0005), (''momentum'', 0), (''weight_decay'', 0)], \<lambda>n. 0)"
    by (simp add: SGD_def uniform_def rest_def)
  show ?thesis using h e C8_SGD_within_bounds[OF h, of "example_world (\<lambda>i. Returned example_metrics)"] by blast
qed

section \<open>One pass through the loop body\<close>

lemma labels_distinct: "AVERAGE_PRECISION_STAT_LABEL \<noteq> AVERAGE_RECALL_STAT_LABEL"
  by (simp add: AVERAGE_PRECISION_STAT_LABEL_def AVERAGE_RECALL_STAT_LABEL_def)

lemma started_log_and_print: "started (log_and_print i m s) = insert i (started s)"
  by (auto simp: started_def log_and_print_def)

lemma trial_unfold:
  assumes "wf_rng (random_state s)" and "setup_succeeds w i"
  shows "\<exists>spec kw r1 r'.
           spec \<in> set optimizer_choices
           \<and> resolve_options (options spec) (rest (random_state s)) = Inr (kw, r1)
           \<and> wf_rng r'
           \<and> trial a w i s =
               after_training i (train_model w i)
                (s\<lparr>log_file := log_file s @
                     [(i, StartTime (clock w i)),
                      (i, ModelIs (network a)),
                      (i, OptimizerChoice (name spec)),
                      (i, OptimizerProperties (defaults (construct_optimizer w (name spec) kw)))],
                   random_state := r'\<rparr>)"
proof -
  obtain spec kw r1 r' where c:
      "spec \<in> set optimizer_choices"
      "resolve_options (options spec) (rest (random_state s)) = Inr (kw, r1)"
      "wf_rng r'"
      "trial_setup a w i s =
               (Inr (construct_optimizer w (name spec) kw, None),
                s\<lparr>log_file := log_file s @
                     [(i, StartTime (clock w i)),
                      (i, ModelIs (network a)),
                      (i, OptimizerChoice (name spec)),
                      (i, OptimizerProperties (defaults (construct_optimizer w (name spec) kw)))],
                   random_state := r'\<rparr>)"
    using trial_setup_ok[OF assms, of a] by blast
  have "trial a w i s =
               after_training i (train_model w i)
                (s\<lparr>log_file := log_file s @
                     [(i, StartTime (clock w i)),
                      (i, ModelIs (network a)),
                      (i, OptimizerChoice (name spec)),
                      (i, OptimizerProperties (defaults (construct_optimizer w (name spec) kw)))],
                   random_state := r'\<rparr>)"
    by (simp add: trial_def c(4))
  then show ?thesis using c(1,2,3) by blast
qed

text \<open>The state with which the training call of a trial is entered.\<close>

lemma trial_enters_training:
  assumes "wf_rng (random_state s)" and "setup_succeeds w i"
  shows "\<exists>s1. trial a w i s = after_training i (train_model w i) s1
           \<and> wf_rng (random_state s1)
           \<and> stat_totals s1 = stat_totals s
           \<and> started s1 = insert i (started s)
           \<and> (\<exists>cfg. log_file s1 = log_file s @ cfg \<and> cfg \<noteq> [] \<and> fst ` set cfg = {i})"
proof -
  obtain spec kw r1 r' where c0:
      "spec \<in> set optimizer_choices"
      "resolve_options (options spec) (rest (random_state s)) = Inr (kw, r1)"
    and c:
      "wf_rng r'"
      "trial a w i s =
               after_training i (train_model w i)
                (s\<lparr>log_file := log_file s @
                     [(i, StartTime (clock w i)),
                      (i, ModelIs (network a)),
                      (i, OptimizerChoice (name spec)),
                      (i, OptimizerProperties (defaults (construct_optimizer w (name spec) kw)))],
                   random_state := r'\<rparr>)"
    using trial_unfold[OF assms, of a] by blast
  show ?thesis
    apply (rule exI, intro conjI)
        apply (rule c(2))
    using c(1) apply simp
      apply simp
     apply (simp add: started_def)
    apply (rule exI[of _ "[(i, StartTime (clock w i)),
                      (i, ModelIs (network a)),
                      (i, OptimizerChoice (name spec)),
                      (i, OptimizerProperties (defaults (construct_optimizer w (name spec) kw)))]"])
    apply simp
    done
qed

lemma set_stat_AP:
  "set_stat AVERAGE_PRECISION_STAT_LABEL i v
      [(AVERAGE_PRECISION_STAT_LABEL, d1), (AVERAGE_RECALL_STAT_LABEL, d2)]
   = Inr [(AVERAGE_PRECISION_STAT_LABEL, AList.update i v d1), (AVERAGE_RECALL_STAT_LABEL, d2)]"
  by (simp add: set_stat_def getitem_def)

lemma set_stat_AR:
  "set_stat AVERAGE_RECALL_STAT_LABEL i v
      [(AVERAGE_PRECISION_STAT_LABEL, d1), (AVERAGE_RECALL_STAT_LABEL, d2)]
   = Inr [(AVERAGE_PRECISION_STAT_LABEL, d1), (AVERAGE_RECALL_STAT_LABEL, AList.update i v d2)]"
  using labels_distinct by (simp add: set_stat_def getitem_def)

lemma record_metrics_stored:
  assumes "stat_totals s = [(AVERAGE_PRECISION_STAT_LABEL, d1), (AVERAGE_RECALL_STAT_LABEL, d2)]"
    and "map_of metrics AVERAGE_PRECISION_STAT_LABEL = Some ap"
    and "map_of metrics AVERAGE_RECALL_STAT_LABEL = Some ar"
  shows "record_metrics i metrics s =
           Next (s\<lparr>log_file := log_file s @
                      [(i, StatLine AVERAGE_PRECISION_STAT_LABEL ap),
                       (i, StatLine AVERAGE_RECALL_STAT_LABEL ar)],
                    stat_totals :=
                      [(AVERAGE_PRECISION_STAT_LABEL, AList.update i ap d1),
                       (AVERAGE_RECALL_STAT_LABEL, AList.update i ar d2)]\<rparr>)"
  using assms
  by (simp add: record_metrics_def getitem_def log_and_print_def set_stat_AP set_stat_AR)

lemma record_metrics_missing:
  assumes "escaping (Returned metrics) = Some e"
  shows "\<exists>s'. record_metrics i metrics s = Raise e s'"
  using assms
  by (auto simp: record_metrics_def getitem_def split: if_splits option.splits)

lemma after_training_escaping:
  assumes "escaping out = Some e"
  shows "\<exists>s'. after_training i out s = Raise e s'"
proof (cases out)
  case (Returned metrics)
  then show ?thesis using assms record_metrics_missing[of metrics e i s] by simp
next
  case (Raised x)
  then show ?thesis using assms by (cases x) auto
qed

lemma after_training_cancels:
  assumes "cancels out"
  shows "after_training i out s = Break (log_and_print i UserInitiatedTermination s)"
  using assms by (cases "(i, out, s)" rule: after_training.cases) auto

lemma continues_cases:
  assumes "continues out"
  shows "(\<exists>err. out = Raised (RuntimeError err))
       \<or> (\<exists>metrics ap ar. out = Returned metrics
             \<and> map_of metrics AVERAGE_PRECISION_STAT_LABEL = Some ap
             \<and> map_of metrics AVERAGE_RECALL_STAT_LABEL = Some ar)"
proof (cases out)
  case (Returned metrics)
  then show ?thesis using assms by (auto simp: continues_def split: if_splits)
next
  case (Raised x)
  then show ?thesis using assms by (cases x) (auto simp: continues_def)
qed

lemma outcome_trichotomy:
  "continues out \<or> cancels out \<or> (\<exists>e. escaping out = Some e)"
  by (cases "escaping out") (auto simp: continues_def)

lemma trial_trichotomy:
  "goes_on w i \<or> cancelled_at w i \<or> (\<exists>e. escapes_at w i = Some e)"
  using outcome_trichotomy[of "train_model w i"]
  by (cases "setup_error w i") (auto simp: goes_on_def cancelled_at_def escapes_at_def setup_succeeds_def)

lemma escapes_at_cases:
  assumes "escapes_at w i = Some e"
  shows "setup_error w i = Some e \<or> (setup_succeeds w i \<and> escaping (train_model w i) = Some e)"
  using assms by (cases "setup_error w i") (auto simp: escapes_at_def setup_succeeds_def)

lemma goes_on_not_cancelled: "goes_on w i \<Longrightarrow> \<not> cancelled_at w i"
  by (simp add: goes_on_def cancelled_at_def continues_def)

lemma goes_on_not_escaping: "goes_on w i \<Longrightarrow> escapes_at w i = None"
  by (simp add: goes_on_def escapes_at_def continues_def setup_succeeds_def)

text \<open>An exception of the setup leaves the loop body, whatever the training call would do.\<close>

lemma trial_setup_fails:
  assumes "wf_rng (random_state s)" and "setup_error w i = Some e"
  shows "\<exists>s'. trial a w i s = Raise e s'"
proof (cases "model_error w i")
  case (Some e1)
  then have "e1 = e" using assms(2) by (simp add: setup_error_def)
  then show ?thesis using Some by (simp add: trial_def trial_setup_def Let_def)
next
  case None
  note m = None
  show ?thesis
  proof (cases "parameters_error w i")
    case (Some e2)
    then have "e2 = e" using assms(2) m by (simp add: setup_error_def)
    then show ?thesis using Some m by (simp add: trial_def trial_setup_def Let_def)
  next
    case None
    then have o: "optimizer_error w i = Some e" using assms(2) m by (simp add: setup_error_def)
    define s2 where "s2 = log_and_print i (ModelIs (network a)) (log_and_print i (StartTime (clock w i)) s)"
    have "wf_rng (random_state s2)" using assms(1) by (simp add: s2_def log_and_print_def)
    then obtain spec where spec:
        "random_choice optimizer_choices (random_state s2) = Inr (spec, rest (random_state s2))"
      using random_choice_in_range[of "random_state s2" optimizer_choices]
      by (auto simp: optimizer_choices_def)
    have "choose_optimizer w i s2 = (Inl e, s2\<lparr>random_state := rest (random_state s2)\<rparr>)"
      using spec o by (simp add: choose_optimizer_def)
    then have "trial_setup a w i s = (Inl e, s2\<lparr>random_state := rest (random_state s2)\<rparr>)"
      using m None unfolding trial_setup_def Let_def s2_def[symmetric] by simp
    then show ?thesis by (simp add: trial_def)
  qed
qed

section \<open>The loop invariant\<close>

lemma aggregate_AP:
  "stat_totals s = [(AVERAGE_PRECISION_STAT_LABEL, d1), (AVERAGE_RECALL_STAT_LABEL, d2)]
   \<Longrightarrow> aggregate s AVERAGE_PRECISION_STAT_LABEL j = map_of d1 j"
  by (simp add: aggregate_def)

lemma aggregate_AR:
  "stat_totals s = [(AVERAGE_PRECISION_STAT_LABEL, d1), (AVERAGE_RECALL_STAT_LABEL, d2)]
   \<Longrightarrow> aggregate s AVERAGE_RECALL_STAT_LABEL j = map_of d2 j"
  using labels_distinct by (simp add: aggregate_def)

lemma aggregate_cong:
  "stat_totals s' = stat_totals s \<Longrightarrow> aggregate s' label j = aggregate s label j"
  by (simp add: aggregate_def)

lemma session_inv_log_only:
  assumes "session_inv w s" "i \<notin> started s"
    and "returned_metric (train_model w i) AVERAGE_PRECISION_STAT_LABEL = None"
    and "returned_metric (train_model w i) AVERAGE_RECALL_STAT_LABEL = None"
    and "wf_rng (random_state s')" "stat_totals s' = stat_totals s"
    and "started s' = insert i (started s)"
  shows "session_inv w s'"
  using assms unfolding session_inv_def
  by (simp add: aggregate_cong[OF assms(6)])

lemma session_inv_stored:
  assumes "session_inv w s" "i \<notin> started s"
    and "stat_totals s = [(AVERAGE_PRECISION_STAT_LABEL, d1), (AVERAGE_RECALL_STAT_LABEL, d2)]"
    and "train_model w i = Returned metrics"
    and "map_of metrics AVERAGE_PRECISION_STAT_LABEL = Some ap"
    and "map_of metrics AVERAGE_RECALL_STAT_LABEL = Some ar"
    and "wf_rng (random_state s')"
    and "stat_totals s' = [(AVERAGE_PRECISION_STAT_LABEL, AList.update i ap d1),
                          (AVERAGE_RECALL_STAT_LABEL, AList.update i ar d2)]"
    and "started s' = insert i (started s)"
  shows "session_inv w s'"
proof -
  have a1: "\<And>j. aggregate s AVERAGE_PRECISION_STAT_LABEL j = map_of d1 j"
    using aggregate_AP[OF assms(3)] by simp
  have a2: "\<And>j. aggregate s AVERAGE_RECALL_STAT_LABEL j = map_of d2 j"
    using aggregate_AR[OF assms(3)] by simp
  have b1: "\<And>j. aggregate s' AVERAGE_PRECISION_STAT_LABEL j = (if j = i then Some ap else map_of d1 j)"
    using aggregate_AP[OF assms(8)] by (simp add: update_conv')
  have b2: "\<And>j. aggregate s' AVERAGE_RECALL_STAT_LABEL j = (if j = i then Some ar else map_of d2 j)"
    using aggregate_AR[OF assms(8)] by (simp add: update_conv')
  show ?thesis
    using assms(1) unfolding session_inv_def
    by (simp add: a1 a2 b1 b2 assms(4,5,6,7,8,9))
qed

lemma trial_continues:
  assumes "session_inv w s" "i \<notin> started s" "goes_on w i"
  shows "\<exists>s'. trial a w i s = Next s' \<and> session_inv w s' \<and> started s' = insert i (started s)"
proof -
  have wf: "wf_rng (random_state s)" using assms(1) by (simp add: session_inv_def)
  have su: "setup_succeeds w i" and go: "continues (train_model w i)"
    using assms(3) by (simp_all add: goes_on_def)
  obtain s1 where s1: "trial a w i s = after_training i (train_model w i) s1"
      "wf_rng (random_state s1)" "stat_totals s1 = stat_totals s" "started s1 = insert i (started s)"
    using trial_enters_training[OF wf su, of a] by blast
  from continues_cases[OF go] show ?thesis
  proof (elim disjE exE conjE)
    fix err assume out: "train_model w i = Raised (RuntimeError err)"
    define s' where "s' = log_and_print i (TrainingFailed err) s1"
    have t: "trial a w i s = Next s'" using s1(1) out by (simp add: s'_def)
    have st: "started s' = insert i (started s)"
      by (simp add: s'_def started_log_and_print s1(4))
    have "session_inv w s'"
      using assms(1,2)
    proof (rule session_inv_log_only)
      show "returned_metric (train_model w i) AVERAGE_PRECISION_STAT_LABEL = None" by (simp add: out)
      show "returned_metric (train_model w i) AVERAGE_RECALL_STAT_LABEL = None" by (simp add: out)
      show "wf_rng (random_state s')" using s1(2) by (simp add: s'_def log_and_print_def)
      show "stat_totals s' = stat_totals s" using s1(3) by (simp add: s'_def log_and_print_def)
      show "started s' = insert i (started s)" by (rule st)
    qed
    then show ?thesis using t st by blast
  next
    fix metrics ap ar
    assume out: "train_model w i = Returned metrics"
      and ap: "map_of metrics AVERAGE_PRECISION_STAT_LABEL = Some ap"
      and ar: "map_of metrics AVERAGE_RECALL_STAT_LABEL = Some ar"
    obtain d1 d2 where d: "stat_totals s = [(AVERAGE_PRECISION_STAT_LABEL, d1), (AVERAGE_RECALL_STAT_LABEL, d2)]"
      using assms(1) by (auto simp: session_inv_def)
    have d': "stat_totals s1 = [(AVERAGE_PRECISION_STAT_LABEL, d1), (AVERAGE_RECALL_STAT_LABEL, d2)]"
      using d s1(3) by simp
    define s' where "s' = s1\<lparr>log_file := log_file s1 @
                      [(i, StatLine AVERAGE_PRECISION_STAT_LABEL ap),
                       (i, StatLine AVERAGE_RECALL_STAT_LABEL ar)],
                    stat_totals :=
                      [(AVERAGE_PRECISION_STAT_LABEL, AList.update i ap d1),
                       (AVERAGE_RECALL_STAT_LABEL, AList.update i ar d2)]\<rparr>"
    have t: "trial a w i s = Next s'"
      using s1(1) out record_metrics_stored[OF d' ap ar, of i] by (simp add: s'_def)
    have st: "started s' = insert i (started s)"
      using s1(4) by (auto simp: s'_def started_def)
    have "session_inv w s'"
      using assms(1,2) d out ap ar
    proof (rule session_inv_stored)
      show "wf_rng (random_state s')" using s1(2) by (simp add: s'_def)
      show "stat_totals s' = [(AVERAGE_PRECISION_STAT_LABEL, AList.update i ap d1),
                          (AVERAGE_RECALL_STAT_LABEL, AList.update i ar d2)]" by (simp add: s'_def)
      show "started s' = insert i (started s)" by (rule st)
    qed
    then show ?thesis using t st by blast
  qed
qed

lemma trial_cancels:
  assumes "session_inv w s" "i \<notin> started s" "cancelled_at w i"
  shows "\<exists>s'. trial a w i s = Break s' \<and> session_inv w s' \<and> started s' = insert i (started s)
            \<and> stat_totals s' = stat_totals s"
proof -
  have wf: "wf_rng (random_state s)" using assms(1) by (simp add: session_inv_def)
  have su: "setup_succeeds w i" and ca: "cancels (train_model w i)"
    using assms(3) by (simp_all add: cancelled_at_def)
  obtain s1 where s1: "trial a w i s = after_training i (train_model w i) s1"
      "wf_rng (random_state s1)" "stat_totals s1 = stat_totals s" "started s1 = insert i (started s)"
    using trial_enters_training[OF wf su, of a] by blast
  have out: "train_model w i = Raised KeyboardInterrupt"
    using ca by (cases "train_model w i" rule: cancels.cases) auto
  define s' where "s' = log_and_print i UserInitiatedTermination s1"
  have t: "trial a w i s = Break s'" using s1(1) out by (simp add: s'_def)
  have st: "started s' = insert i (started s)"
    by (simp add: s'_def started_log_and_print s1(4))
  have tot: "stat_totals s' = stat_totals s" using s1(3) by (simp add: s'_def log_and_print_def)
  have "session_inv w s'"
    using assms(1,2)
  proof (rule session_inv_log_only)
    show "returned_metric (train_model w i) AVERAGE_PRECISION_STAT_LABEL = None" by (simp add: out)
    show "returned_metric (train_model w i) AVERAGE_RECALL_STAT_LABEL = None" by (simp add: out)
    show "wf_rng (random_state s')" using s1(2) by (simp add: s'_def log_and_print_def)
    show "stat_totals s' = stat_totals s" by (rule tot)
    show "started s' = insert i (started s)" by (rule st)
  qed
  then show ?thesis using t st tot by blast
qed

lemma trial_escapes:
  assumes "wf_rng (random_state s)" "escapes_at w i = Some e"
  shows "\<exists>s'. trial a w i s = Raise e s'"
  using escapes_at_cases[OF assms(2)]
proof
  assume "setup_error w i = Some e"
  then show ?thesis using trial_setup_fails[OF assms(1)] by blast
next
  assume h: "setup_succeeds w i \<and> escaping (train_model w i) = Some e"
  obtain s1 where s1: "trial a w i s = after_training i (train_model w i) s1"
    using trial_enters_training[OF assms(1) conjunct1[OF h], of a] by blast
  show ?thesis using after_training_escaping[OF conjunct2[OF h], of i s1] s1 by simp
qed

lemma session_inv_init:
  assumes "wf_rng r"
  shows "session_inv w (init_session r)"
  using assms labels_distinct
  by (simp add: session_inv_def init_session_def started_def aggregate_def)

section \<open>How the loop ends\<close>

lemma trial_loop_append:
  "trial_loop a w (xs @ ys) s =
     (case trial_loop a w xs s of
        Next s' \<Rightarrow> trial_loop a w ys s'
      | Break s' \<Rightarrow> Break s'
      | Raise e s' \<Rightarrow> Raise e s')"
  by (induction xs arbitrary: s) (auto split: ctl.splits)

lemma upt_split:
  "[m..<n] = xs @ k # ys \<Longrightarrow> xs = [m..<k] \<and> ys = [Suc k..<n] \<and> m \<le> k \<and> k < n"
proof (induction xs arbitrary: m)
  case Nil
  then show ?case by (auto simp add: upt_eq_Cons_conv)
next
  case (Cons x xs)
  from Cons.prems have h: "m < n" "m = x" "[Suc m..<n] = xs @ k # ys"
    by (auto simp add: upt_eq_Cons_conv)
  from Cons.IH[OF h(3)] have ih: "xs = [Suc m..<k]" "ys = [Suc k..<n]" "Suc m \<le> k" "k < n"
    by simp_all
  have "x # xs = [m..<k]" using ih(1,3) h(2) by (simp add: upt_conv_Cons)
  then show ?case using ih by simp
qed

lemma trial_loop_cases:
  assumes "session_inv w s" "distinct js" "started s \<inter> set js = {}"
  shows "(\<exists>s'. trial_loop a w js s = Next s' \<and> session_inv w s'
             \<and> started s' = started s \<union> set js
             \<and> (\<forall>j\<in>set js. goes_on w j))
       \<or> (\<exists>s' xs k ys. js = xs @ k # ys \<and> (\<forall>j\<in>set xs. goes_on w j)
             \<and> cancelled_at w k
             \<and> trial_loop a w js s = Break s' \<and> session_inv w s'
             \<and> started s' = started s \<union> set xs \<union> {k})
       \<or> (\<exists>s' e xs k ys. js = xs @ k # ys \<and> (\<forall>j\<in>set xs. goes_on w j)
             \<and> escapes_at w k = Some e
             \<and> trial_loop a w js s = Raise e s')"
  using assms
proof (induction js arbitrary: s)
  case Nil
  then show ?case by simp
next
  case (Cons i js)
  have fresh: "i \<notin> started s" using Cons.prems(3) by simp
  have wf: "wf_rng (random_state s)" using Cons.prems(1) by (simp add: session_inv_def)
  consider (go) "goes_on w i" | (stop) "cancelled_at w i"
    | (esc) e where "escapes_at w i = Some e"
    using trial_trichotomy[of w i] by blast
  then show ?case
  proof cases
    case go
    obtain s1 where s1: "trial a w i s = Next s1" "session_inv w s1" "started s1 = insert i (started s)"
      using trial_continues[OF Cons.prems(1) fresh go, of a] by blast
    have d: "distinct js" using Cons.prems(2) by simp
    have f: "started s1 \<inter> set js = {}" using Cons.prems(2,3) s1(3) by auto
    have step: "trial_loop a w (i # js) s = trial_loop a w js s1" using s1(1) by simp
    from Cons.IH[OF s1(2) d f] show ?thesis
    proof (elim disjE exE conjE)
      fix s' assume h: "trial_loop a w js s1 = Next s'" "session_inv w s'"
        "started s' = started s1 \<union> set js" "\<forall>j\<in>set js. goes_on w j"
      have "trial_loop a w (i # js) s = Next s'" using step h(1) by simp
      moreover have "started s' = started s \<union> set (i # js)" using h(3) s1(3) by auto
      moreover have "\<forall>j\<in>set (i # js). goes_on w j" using h(4) go by simp
      ultimately show ?thesis using h(2) by blast
    next
      fix s' xs k ys assume h: "js = xs @ k # ys" "\<forall>j\<in>set xs. goes_on w j"
        "cancelled_at w k" "trial_loop a w js s1 = Break s'" "session_inv w s'"
        "started s' = started s1 \<union> set xs \<union> {k}"
      have "i # js = (i # xs) @ k # ys" using h(1) by simp
      moreover have "\<forall>j\<in>set (i # xs). goes_on w j" using h(2) go by simp
      moreover have "trial_loop a w (i # js) s = Break s'" using step h(4) by simp
      moreover have "started s' = started s \<union> set (i # xs) \<union> {k}" using h(6) s1(3) by auto
      ultimately show ?thesis using h(3,5) by blast
    next
      fix s' e xs k ys assume h: "js = xs @ k # ys" "\<forall>j\<in>set xs. goes_on w j"
        "escapes_at w k = Some e" "trial_loop a w js s1 = Raise e s'"
      have "i # js = (i # xs) @ k # ys" using h(1) by simp
      moreover have "\<forall>j\<in>set (i # xs). goes_on w j" using h(2) go by simp
      moreover have "trial_loop a w (i # js) s = Raise e s'" using step h(4) by simp
      ultimately show ?thesis using h(3) by blast
    qed
  next
    case stop
    obtain s1 where s1: "trial a w i s = Break s1" "session_inv w s1" "started s1 = insert i (started s)"
      using trial_cancels[OF Cons.prems(1) fresh stop, of a] by blast
    have "i # js = [] @ i # js" by simp
    moreover have "\<forall>j\<in>set []. goes_on w j" by simp
    moreover have "trial_loop a w (i # js) s = Break s1" using s1(1) by simp
    moreover have "started s1 = started s \<union> set [] \<union> {i}" using s1(3) by simp
    ultimately show ?thesis using stop s1(2) by blast
  next
    case esc
    obtain s1 where s1: "trial a w i s = Raise e s1"
      using trial_escapes[OF wf esc, of a] by blast
    have "i # js = [] @ i # js" by simp
    moreover have "\<forall>j\<in>set []. goes_on w j" by simp
    moreover have "trial_loop a w (i # js) s = Raise e s1" using s1(1) by simp
    ultimately show ?thesis using esc by blast
  qed
qed

lemma started_init: "started (init_session r) = {}"
  by (simp add: started_def init_session_def)

lemma continues_not_cancels: "continues out \<Longrightarrow> \<not> cancels out"
  by (simp add: continues_def)

lemma continues_not_escaping: "continues out \<Longrightarrow> escaping out = None"
  by (simp add: continues_def)

lemma cancels_not_escaping: "cancels out \<Longrightarrow> escaping out = None"
  by (cases out rule: cancels.cases) auto

lemma trial_loop_all_continue:
  assumes "session_inv w s" "distinct js" "started s \<inter> set js = {}"
    and "\<forall>j\<in>set js. goes_on w j"
  shows "\<exists>s'. trial_loop a w js s = Next s' \<and> session_inv w s' \<and> started s' = started s \<union> set js"
  using trial_loop_cases[OF assms(1,2,3), of a] assms(4)
  by (auto simp: goes_on_not_cancelled goes_on_not_escaping)

lemma trial_loop_Next:
  assumes "session_inv w s" "distinct js" "started s \<inter> set js = {}"
    and "trial_loop a w js s = Next s'"
  shows "session_inv w s' \<and> started s' = started s \<union> set js
         \<and> (\<forall>j\<in>set js. goes_on w j)"
  using trial_loop_cases[OF assms(1,2,3), of a] assms(4) by auto

lemma reached:
  assumes "wf_rng r" "trial_loop a w [0..<i] (init_session r) = Next s"
  shows "session_inv w s \<and> started s = {0..<i} \<and> (\<forall>j<i. goes_on w j)"
proof -
  have "session_inv w s \<and> started s = started (init_session r) \<union> set [0..<i]
         \<and> (\<forall>j\<in>set [0..<i]. goes_on w j)"
    by (rule trial_loop_Next[OF session_inv_init[OF assms(1)] _ _ assms(2)])
       (simp_all add: started_init)
  then show ?thesis by (simp add: started_init)
qed

lemma finish_ok:
  assumes "stat_totals s = [(AVERAGE_PRECISION_STAT_LABEL, d1), (AVERAGE_RECALL_STAT_LABEL, d2)]"
    and "report_succeeds w"
  shows "finish w s =
           Inr \<lparr>written_log = log_file s,
                plot_AP = \<lparr>plot_title = AVERAGE_PRECISION_STAT_LABEL, plot_lines = d1\<rparr>,
                plot_AR = \<lparr>plot_title = AVERAGE_RECALL_STAT_LABEL, plot_lines = d2\<rparr>\<rparr>"
  using assms labels_distinct
  by (simp add: finish_def make_plot_def getitem_def report_succeeds_def)

lemma main_unfold:
  assumes "session_starts w"
  shows "main a w r =
           (case trial_loop a w (trial_indices a) (init_session r) of
              Next s \<Rightarrow> finish w s
            | Break s \<Rightarrow> finish w s
            | Raise e s \<Rightarrow> Inl e)"
  using assms by (simp add: main_def session_starts_def)

lemma main_does_not_start:
  "prepare_error w = Some e \<Longrightarrow> main a w r = Inl e"
  "prepare_error w = None \<Longrightarrow> open_log_error w = Some e \<Longrightarrow> main a w r = Inl e"
  by (simp_all add: main_def)

lemma split_indices:
  assumes "i < n"
  shows "[0..<n] = [0..<i] @ i # [Suc i..<n]"
proof -
  have "[0..<n] = [0..<i] @ [i..<n]"
    using assms upt_add_eq_append[of 0 i "n - i"] by simp
  then show ?thesis using assms by (simp add: upt_conv_Cons)
qed

lemma main_escapes:
  assumes "wf_rng r" "k < nat (num_trials a)" "\<forall>j<k. goes_on w j"
    and "escapes_at w k = Some e" and "session_starts w"
  shows "main a w r = Inl e"
proof -
  obtain s where s: "trial_loop a w [0..<k] (init_session r) = Next s" "session_inv w s"
    using trial_loop_all_continue[OF session_inv_init[OF assms(1)], of "[0..<k]" w a] assms(3)
    by (auto simp: started_init)
  have wf: "wf_rng (random_state s)" using s(2) by (simp add: session_inv_def)
  obtain s' where s': "trial a w k s = Raise e s'"
    using trial_escapes[OF wf assms(4), of a] by blast
  have "trial_loop a w (trial_indices a) (init_session r) = Raise e s'"
    unfolding trial_indices_def split_indices[OF assms(2)] trial_loop_append
    using s(1) s' by simp
  then show ?thesis by (simp add: main_unfold[OF assms(5)])
qed

lemma after_training_appends:
  "\<exists>post. log_file (state_of (after_training i out s)) = log_file s @ post"
proof (cases out)
  case (Returned metrics)
  then show ?thesis
    by (auto simp: record_metrics_def log_and_print_def Let_def split: sum.splits)
next
  case (Raised x)
  then show ?thesis by (cases x) (auto simp: log_and_print_def)
qed

section \<open>The aggregate metrics and the empty session\<close>

lemma loop_end_facts:
  assumes "wf_rng r"
    and "trial_loop a w (trial_indices a) (init_session r) = Next s
         \<or> trial_loop a w (trial_indices a) (init_session r) = Break s"
  shows "session_inv w s \<and> started s \<subseteq> {0..<nat (num_trials a)}
         \<and> (\<forall>j\<in>started s. goes_on w j \<or> cancelled_at w j)"
proof -
  have d: "distinct (trial_indices a)" by (simp add: trial_indices_def)
  have f: "started (init_session r) \<inter> set (trial_indices a) = {}" by (simp add: started_init)
  consider
    (exhausted) s' where "trial_loop a w (trial_indices a) (init_session r) = Next s'"
      "session_inv w s'" "started s' = started (init_session r) \<union> set (trial_indices a)"
      "\<forall>j\<in>set (trial_indices a). goes_on w j"
  | (broke) s' xs k ys where "trial_indices a = xs @ k # ys"
      "\<forall>j\<in>set xs. goes_on w j" "cancelled_at w k"
      "trial_loop a w (trial_indices a) (init_session r) = Break s'" "session_inv w s'"
      "started s' = started (init_session r) \<union> set xs \<union> {k}"
  | (raised) s' e where "trial_loop a w (trial_indices a) (init_session r) = Raise e s'"
    using trial_loop_cases[OF session_inv_init[OF assms(1)] d f, of a] by blast
  then show ?thesis
  proof cases
    case exhausted
    have "s' = s" using exhausted(1) assms(2) by simp
    then show ?thesis using exhausted(2,3,4) by (auto simp: started_init trial_indices_def)
  next
    case broke
    have eq: "s' = s" using broke(4) assms(2) by simp
    have sub: "set xs \<union> {k} \<subseteq> set (trial_indices a)" using broke(1) by auto
    have "started s \<subseteq> {0..<nat (num_trials a)}"
      using sub broke(6) eq by (auto simp: started_init trial_indices_def)
    moreover have "\<forall>j\<in>started s. goes_on w j \<or> cancelled_at w j"
      using broke(2,3,6) eq by (auto simp: started_init)
    ultimately show ?thesis using broke(5) eq by simp
  next
    case raised
    then show ?thesis using assms(2) by simp
  qed
qed

lemma returned_and_kept:
  assumes "continues out \<or> cancels out" "out = Returned metrics"
  shows "\<exists>ap ar. map_of metrics AVERAGE_PRECISION_STAT_LABEL = Some ap
           \<and> map_of metrics AVERAGE_RECALL_STAT_LABEL = Some ar"
  using assms by (auto simp: continues_def split: if_splits)

text \<open>
  C4. When the trial loop has ended (by exhausting the indices or by \<open>break\<close>), the
  aggregate metrics hold, under each of the two metric names, an entry keyed by \<open>i\<close>
  exactly when trial \<open>i\<close> was started and its training call returned; the entry is
  the sequence the call returned for that metric. Trials whose call raised, and
  indices never started, have no entry.
\<close>

theorem C4_aggregate_holds_returned_metrics:
  assumes "wf_rng r"
    and "trial_loop a w (trial_indices a) (init_session r) = Next s
         \<or> trial_loop a w (trial_indices a) (init_session r) = Break s"
  shows "aggregate s AVERAGE_PRECISION_STAT_LABEL i =
           (if i \<in> started s
            then returned_metric (train_model w i) AVERAGE_PRECISION_STAT_LABEL else None)
       \<and> aggregate s AVERAGE_RECALL_STAT_LABEL i =
           (if i \<in> started s
            then returned_metric (train_model w i) AVERAGE_RECALL_STAT_LABEL else None)
       \<and> ((\<exists>v. aggregate s AVERAGE_PRECISION_STAT_LABEL i = Some v)
            \<longleftrightarrow> i \<in> started s \<and> (\<exists>metrics. train_model w i = Returned metrics))
       \<and> ((\<exists>v. aggregate s AVERAGE_RECALL_STAT_LABEL i = Some v)
            \<longleftrightarrow> i \<in> started s \<and> (\<exists>metrics. train_model w i = Returned metrics))
       \<and> started s \<subseteq> {0..<nat (num_trials a)}"
proof -
  have facts: "session_inv w s" "started s \<subseteq> {0..<nat (num_trials a)}"
      "\<forall>j\<in>started s. goes_on w j \<or> cancelled_at w j"
    using loop_end_facts[OF assms] by simp_all
  have ended: "\<forall>j\<in>started s. continues (train_model w j) \<or> cancels (train_model w j)"
    using facts(3) by (auto simp: goes_on_def cancelled_at_def)
  have ap: "aggregate s AVERAGE_PRECISION_STAT_LABEL i =
           (if i \<in> started s
            then returned_metric (train_model w i) AVERAGE_PRECISION_STAT_LABEL else None)"
    using facts(1) by (simp add: session_inv_def)
  have ar: "aggregate s AVERAGE_RECALL_STAT_LABEL i =
           (if i \<in> started s
            then returned_metric (train_model w i) AVERAGE_RECALL_STAT_LABEL else None)"
    using facts(1) by (simp add: session_inv_def)
  have kept: "\<And>metrics. i \<in> started s \<Longrightarrow> train_model w i = Returned metrics \<Longrightarrow>
      (\<exists>ap ar. map_of metrics AVERAGE_PRECISION_STAT_LABEL = Some ap
           \<and> map_of metrics AVERAGE_RECALL_STAT_LABEL = Some ar)"
    using ended returned_and_kept by blast
  have iff1: "(\<exists>v. aggregate s AVERAGE_PRECISION_STAT_LABEL i = Some v)
            \<longleftrightarrow> i \<in> started s \<and> (\<exists>metrics. train_model w i = Returned metrics)"
  proof (cases "train_model w i")
    case (Returned metrics)
    then show ?thesis using ap kept by auto
  next
    case (Raised x)
    then show ?thesis using ap by auto
  qed
  have iff2: "(\<exists>v. aggregate s AVERAGE_RECALL_STAT_LABEL i = Some v)
            \<longleftrightarrow> i \<in> started s \<and> (\<exists>metrics. train_model w i = Returned metrics)"
  proof (cases "train_model w i")
    case (Returned metrics)
    then show ?thesis using ar kept by auto
  next
    case (Raised x)
    then show ?thesis using ar by auto
  qed
  show ?thesis using ap ar iff1 iff2 facts(2) by blast
qed

lemmas eval_defs = main_def trial_indices_def init_session_def trial_def trial_setup_def
  choose_optimizer_def choose_lr_scheduler_def Optimizer_get_next_def LRScheduler_get_next_def
  random_choice_def optimizer_choices_def lr_scheduler_choices_def SGD_def Adam_def AdamW_def
  uniform_def rest_def log_and_print_def record_metrics_def set_stat_def getitem_def
  finish_def make_plot_def example_world_def example_optimizer_def example_lr_scheduler_def
  example_metrics_def example_args_def AVERAGE_PRECISION_STAT_LABEL_def AVERAGE_RECALL_STAT_LABEL_def
  Let_def upt_conv_Cons

lemmas env_defs = session_starts_def report_succeeds_def setup_succeeds_def setup_error_def
  goes_on_def cancelled_at_def escapes_at_def continues_def example_world_def example_metrics_def
  AVERAGE_PRECISION_STAT_LABEL_def AVERAGE_RECALL_STAT_LABEL_def

lemma wf_rng_zero: "wf_rng (\<lambda>n. 0)"
  by (simp add: wf_rng_def)

theorem C4_witness:
  "wf_rng (\<lambda>n. 0)
   \<and> (\<exists>s. trial_loop (example_args 3)
              (example_world (\<lambda>i. if i = 1 then Raised (RuntimeError ''loss is nan'')
                                  else Returned example_metrics))
              (trial_indices (example_args 3)) (init_session (\<lambda>n. 0)) = Next s
          \<and> started s = {0, 1, 2}
          \<and> aggregate s AVERAGE_PRECISION_STAT_LABEL 0 = Some [0.25, 0.5]
          \<and> aggregate s AVERAGE_RECALL_STAT_LABEL 0 = Some [0.5, 0.75]
          \<and> aggregate s AVERAGE_PRECISION_STAT_LABEL 1 = None
          \<and> aggregate s AVERAGE_RECALL_STAT_LABEL 1 = None
          \<and> aggregate s AVERAGE_PRECISION_STAT_LABEL 2 = Some [0.25, 0.5]
          \<and> aggregate s AVERAGE_PRECISION_STAT_LABEL 3 = None)"
proof -
  define w where "w = example_world (\<lambda>i. if i = 1 then Raised (RuntimeError ''loss is nan'')
                                  else Returned example_metrics)"
  define s where "s = state_of (trial_loop (example_args 3) w (trial_indices (example_args 3))
                                  (init_session (\<lambda>n. 0)))"
  have e: "trial_loop (example_args 3) w (trial_indices (example_args 3)) (init_session (\<lambda>n. 0)) = Next s"
    unfolding s_def w_def by (simp add: eval_defs)
  have st: "started s = {0, 1, 2}"
    unfolding s_def w_def by (simp add: eval_defs started_def numeral_2_eq_2)
  have t: "train_model w 0 = Returned example_metrics" "train_model w 2 = Returned example_metrics"
     "train_model w 1 = Raised (RuntimeError ''loss is nan'')"
    by (simp_all add: w_def example_world_def)
  have m: "map_of example_metrics AVERAGE_PRECISION_STAT_LABEL = Some [0.25, 0.5]"
     "map_of example_metrics AVERAGE_RECALL_STAT_LABEL = Some [0.5, 0.75]"
    by (simp_all add: example_metrics_def AVERAGE_PRECISION_STAT_LABEL_def AVERAGE_RECALL_STAT_LABEL_def)
  note c = C4_aggregate_holds_returned_metrics[OF wf_rng_zero disjI1[OF e]]
  have "aggregate s AVERAGE_PRECISION_STAT_LABEL 0 = Some [0.25, 0.5]"
       "aggregate s AVERAGE_RECALL_STAT_LABEL 0 = Some [0.5, 0.75]"
       "aggregate s AVERAGE_PRECISION_STAT_LABEL 1 = None"
       "aggregate s AVERAGE_RECALL_STAT_LABEL 1 = None"
       "aggregate s AVERAGE_PRECISION_STAT_LABEL 2 = Some [0.25, 0.5]"
       "aggregate s AVERAGE_PRECISION_STAT_LABEL 3 = None"
    using c[of 0] c[of 1] c[of 2] c[of 3] st t m by simp_all
  then show ?thesis using wf_rng_zero e st unfolding w_def by blast
qed

text \<open>
  C7. A session with \<open>num_trials = 0\<close> runs no trial: the loop ends at once with the
  initial state, whose two metric dicts are empty. When the session gets as far as its
  loop (the preparation and the opening of the log file return) and the reporting
  calls return, \<open>main\<close> returns its report, an empty log and two plots without lines,
  instead of raising. The hypothesis on the environment cannot be dropped: \<open>main\<close>
  opens the log file in the logs directory at line 135 and creates that directory only
  at line 222, and an exception of \<open>open\<close> ends \<open>main\<close> whatever the number of trials
  (lemma \<open>main_does_not_start\<close>).
\<close>

theorem C7_zero_trials_report:
  "trial_loop (a\<lparr>num_trials := 0\<rparr>) w (trial_indices (a\<lparr>num_trials := 0\<rparr>)) (init_session r)
     = Next (init_session r)
   \<and> stat_totals (init_session r) =
       [(AVERAGE_PRECISION_STAT_LABEL, []), (AVERAGE_RECALL_STAT_LABEL, [])]
   \<and> started (init_session r) = {}
   \<and> (session_starts w \<and> report_succeeds w \<longrightarrow>
        main (a\<lparr>num_trials := 0\<rparr>) w r =
          Inr \<lparr>written_log = [],
               plot_AP = \<lparr>plot_title = AVERAGE_PRECISION_STAT_LABEL, plot_lines = []\<rparr>,
               plot_AR = \<lparr>plot_title = AVERAGE_RECALL_STAT_LABEL, plot_lines = []\<rparr>\<rparr>)"
proof -
  have i: "trial_indices (a\<lparr>num_trials := 0\<rparr>) = []" by (simp add: trial_indices_def)
  have t: "stat_totals (init_session r) =
       [(AVERAGE_PRECISION_STAT_LABEL, []), (AVERAGE_RECALL_STAT_LABEL, [])]"
    using labels_distinct by (simp add: init_session_def)
  have l: "log_file (init_session r) = []" by (simp add: init_session_def)
  have m: "session_starts w \<and> report_succeeds w \<longrightarrow>
        main (a\<lparr>num_trials := 0\<rparr>) w r =
          Inr \<lparr>written_log = [],
               plot_AP = \<lparr>plot_title = AVERAGE_PRECISION_STAT_LABEL, plot_lines = []\<rparr>,
               plot_AR = \<lparr>plot_title = AVERAGE_RECALL_STAT_LABEL, plot_lines = []\<rparr>\<rparr>"
  proof
    assume h: "session_starts w \<and> report_succeeds w"
    show "main (a\<lparr>num_trials := 0\<rparr>) w r =
          Inr \<lparr>written_log = [],
               plot_AP = \<lparr>plot_title = AVERAGE_PRECISION_STAT_LABEL, plot_lines = []\<rparr>,
               plot_AR = \<lparr>plot_title = AVERAGE_RECALL_STAT_LABEL, plot_lines = []\<rparr>\<rparr>"
      using finish_ok[OF t conjunct2[OF h]] by (simp add: main_unfold[OF conjunct1[OF h]] i l)
  qed
  have lp: "trial_loop (a\<lparr>num_trials := 0\<rparr>) w (trial_indices (a\<lparr>num_trials := 0\<rparr>)) (init_session r)
     = Next (init_session r)"
    by (simp add: i)
  show ?thesis using lp t started_init[of r] m by (intro conjI) assumption+
qed

theorem C7_witness:
  "session_starts (example_world (\<lambda>i. Returned example_metrics))
   \<and> report_succeeds (example_world (\<lambda>i. Returned example_metrics))
   \<and> trial_loop (example_args 0) (example_world (\<lambda>i. Returned example_metrics))
        (trial_indices (example_args 0)) (init_session (\<lambda>n. 0)) = Next (init_session (\<lambda>n. 0))
   \<and> main (example_args 0) (example_world (\<lambda>i. Returned example_metrics)) (\<lambda>n. 0) =
       Inr \<lparr>written_log = [],
            plot_AP = \<lparr>plot_title = AVERAGE_PRECISION_STAT_LABEL, plot_lines = []\<rparr>,
            plot_AR = \<lparr>plot_title = AVERAGE_RECALL_STAT_LABEL, plot_lines = []\<rparr>\<rparr>"
proof -
  define w where "w = example_world (\<lambda>i. Returned example_metrics)"
  have h1: "session_starts w" by (simp add: w_def session_starts_def example_world_def)
  have h2: "report_succeeds w" by (simp add: w_def report_succeeds_def example_world_def)
  have a0: "(example_args 0)\<lparr>num_trials := 0\<rparr> = example_args 0" by (simp add: example_args_def)
  note th = C7_zero_trials_report[of "example_args 0" w "\<lambda>n. 0", unfolded a0]
  have lp: "trial_loop (example_args 0) w (trial_indices (example_args 0)) (init_session (\<lambda>n. 0))
              = Next (init_session (\<lambda>n. 0))"
    using th by simp
  have m: "main (example_args 0) w (\<lambda>n. 0) =
       Inr \<lparr>written_log = [],
            plot_AP = \<lparr>plot_title = AVERAGE_PRECISION_STAT_LABEL, plot_lines = []\<rparr>,
            plot_AR = \<lparr>plot_title = AVERAGE_RECALL_STAT_LABEL, plot_lines = []\<rparr>\<rparr>"
    using th h1 h2 by simp
  show ?thesis using h1 h2 lp m unfolding w_def by (intro conjI) assumption+
qed

section \<open>Failures, cancellation and what escapes the loop\<close>

lemma continue_after_reaching:
  assumes "i < nat (num_trials a)" "trial_loop a w [0..<i] (init_session r) = Next s"
  shows "trial_loop a w (trial_indices a) (init_session r) =
           (case trial a w i s of
              Next s' \<Rightarrow> trial_loop a w [Suc i..<nat (num_trials a)] s'
            | Break s' \<Rightarrow> Break s'
            | Raise e s' \<Rightarrow> Raise e s')"
  unfolding trial_indices_def split_indices[OF assms(1)] trial_loop_append
  using assms(2) by simp

lemma session_inv_finish:
  assumes "session_inv w s" and "report_succeeds w"
  shows "\<exists>d1 d2. stat_totals s = [(AVERAGE_PRECISION_STAT_LABEL, d1), (AVERAGE_RECALL_STAT_LABEL, d2)]
           \<and> finish w s =
               Inr \<lparr>written_log = log_file s,
                    plot_AP = \<lparr>plot_title = AVERAGE_PRECISION_STAT_LABEL, plot_lines = d1\<rparr>,
                    plot_AR = \<lparr>plot_title = AVERAGE_RECALL_STAT_LABEL, plot_lines = d2\<rparr>\<rparr>"
proof -
  obtain d1 d2 where d: "stat_totals s = [(AVERAGE_PRECISION_STAT_LABEL, d1), (AVERAGE_RECALL_STAT_LABEL, d2)]"
    using assms(1) by (auto simp: session_inv_def)
  show ?thesis using d finish_ok[OF d assms(2)] by blast
qed

text \<open>
  C1. When the session has reached trial \<open>i\<close> (the loop over the earlier indices has
  ended normally, in state \<open>s\<close>), the setup of trial \<open>i\<close> returns, and the training
  call of trial \<open>i\<close> raises a \<open>RuntimeError\<close>, the loop body logs the failure reason
  as the last line of trial \<open>i\<close>, leaves the aggregate metrics as they were, and the
  session goes on as the loop over the remaining indices \<open>i + 1, ..., num_trials - 1\<close>.
  When each of those trials lets the loop go on as well, every index of the session
  is started, and \<open>main\<close> returns its report when the session got as far as its loop
  and the reporting calls return.
\<close>

theorem C1_runtime_error_is_logged_and_skipped:
  assumes "wf_rng r" and "i < nat (num_trials a)"
    and "train_model w i = Raised (RuntimeError err)"
    and "trial_loop a w [0..<i] (init_session r) = Next s"
    and "setup_succeeds w i"
  shows "\<exists>s'. trial a w i s = Next s'
           \<and> stat_totals s' = stat_totals s
           \<and> (\<exists>cfg. log_file s' = log_file s @ cfg @ [(i, TrainingFailed err)])
           \<and> started s' = {0..i}
           \<and> trial_loop a w (trial_indices a) (init_session r) =
                trial_loop a w [Suc i..<nat (num_trials a)] s'
           \<and> ((\<forall>j. i < j \<and> j < nat (num_trials a) \<longrightarrow> goes_on w j) \<longrightarrow>
                (\<exists>s''. trial_loop a w (trial_indices a) (init_session r) = Next s''
                    \<and> started s'' = {0..<nat (num_trials a)}
                    \<and> aggregate s'' AVERAGE_PRECISION_STAT_LABEL i = None
                    \<and> aggregate s'' AVERAGE_RECALL_STAT_LABEL i = None
                    \<and> (session_starts w \<and> report_succeeds w \<longrightarrow>
                         (\<exists>rep. main a w r = Inr rep))))"
proof -
  have r: "session_inv w s" "started s = {0..<i}" using reached[OF assms(1,4)] by simp_all
  have wf: "wf_rng (random_state s)" using r(1) by (simp add: session_inv_def)
  have fresh: "i \<notin> started s" using r(2) by simp
  have go: "goes_on w i" by (simp add: goes_on_def assms(3,5) continues_def)
  obtain s1 cfg where s1: "trial a w i s = after_training i (train_model w i) s1"
      "stat_totals s1 = stat_totals s" "log_file s1 = log_file s @ cfg"
    using trial_enters_training[OF wf assms(5), of a] by blast
  define s' where "s' = log_and_print i (TrainingFailed err) s1"
  have t: "trial a w i s = Next s'" using s1(1) assms(3) by (simp add: s'_def)
  obtain s2 where s2: "trial a w i s = Next s2" "session_inv w s2" "started s2 = insert i (started s)"
    using trial_continues[OF r(1) fresh go, of a] by blast
  have eq: "s2 = s'" using t s2(1) by simp
  have inv': "session_inv w s'" using s2(2) eq by simp
  have st': "started s' = {0..i}" using s2(3) eq r(2) by auto
  have tot: "stat_totals s' = stat_totals s" using s1(2) by (simp add: s'_def log_and_print_def)
  have lg: "log_file s' = log_file s @ cfg @ [(i, TrainingFailed err)]"
    using s1(3) by (simp add: s'_def log_and_print_def)
  have loop: "trial_loop a w (trial_indices a) (init_session r) =
                trial_loop a w [Suc i..<nat (num_trials a)] s'"
    using continue_after_reaching[OF assms(2,4)] t by simp
  have all: "(\<forall>j. i < j \<and> j < nat (num_trials a) \<longrightarrow> goes_on w j) \<longrightarrow>
                (\<exists>s''. trial_loop a w (trial_indices a) (init_session r) = Next s''
                    \<and> started s'' = {0..<nat (num_trials a)}
                    \<and> aggregate s'' AVERAGE_PRECISION_STAT_LABEL i = None
                    \<and> aggregate s'' AVERAGE_RECALL_STAT_LABEL i = None
                    \<and> (session_starts w \<and> report_succeeds w \<longrightarrow>
                         (\<exists>rep. main a w r = Inr rep)))"
  proof
    assume c: "\<forall>j. i < j \<and> j < nat (num_trials a) \<longrightarrow> goes_on w j"
    have "\<exists>s''. trial_loop a w [Suc i..<nat (num_trials a)] s' = Next s'' \<and> session_inv w s''
            \<and> started s'' = started s' \<union> set [Suc i..<nat (num_trials a)]"
      by (rule trial_loop_all_continue[OF inv']) (use c st' in auto)
    then obtain s'' where s'': "trial_loop a w [Suc i..<nat (num_trials a)] s' = Next s''"
        "session_inv w s''" "started s'' = started s' \<union> set [Suc i..<nat (num_trials a)]"
      by blast
    have e: "trial_loop a w (trial_indices a) (init_session r) = Next s''" using loop s''(1) by simp
    have st'': "started s'' = {0..<nat (num_trials a)}" using s''(3) st' assms(2) by auto
    have "i \<in> started s''" using st'' assms(2) by simp
    then have ag: "aggregate s'' AVERAGE_PRECISION_STAT_LABEL i = None"
        "aggregate s'' AVERAGE_RECALL_STAT_LABEL i = None"
      using s''(2) assms(3) by (simp_all add: session_inv_def)
    have rp: "session_starts w \<and> report_succeeds w \<longrightarrow> (\<exists>rep. main a w r = Inr rep)"
    proof
      assume h: "session_starts w \<and> report_succeeds w"
      obtain rep where "finish w s'' = Inr rep"
        using session_inv_finish[OF s''(2) conjunct2[OF h]] by blast
      then have "main a w r = Inr rep" using e by (simp add: main_unfold[OF conjunct1[OF h]])
      then show "\<exists>rep. main a w r = Inr rep" by blast
    qed
    show "\<exists>s''. trial_loop a w (trial_indices a) (init_session r) = Next s''
                    \<and> started s'' = {0..<nat (num_trials a)}
                    \<and> aggregate s'' AVERAGE_PRECISION_STAT_LABEL i = None
                    \<and> aggregate s'' AVERAGE_RECALL_STAT_LABEL i = None
                    \<and> (session_starts w \<and> report_succeeds w \<longrightarrow>
                         (\<exists>rep. main a w r = Inr rep))"
      using e st'' ag rp by (intro exI conjI) assumption+
  qed
  have lgx: "\<exists>cfg. log_file s' = log_file s @ cfg @ [(i, TrainingFailed err)]" using lg by blast
  show ?thesis
    apply (rule exI[of _ s'])
    apply (insert t tot lgx st' loop all)
    apply (intro conjI)
         apply assumption+
    done
qed

text \<open>
  C2. When the session has reached trial \<open>i\<close> in state \<open>s\<close>, the setup of trial \<open>i\<close>
  returns, and the training call of trial \<open>i\<close> raises \<open>KeyboardInterrupt\<close>, the loop
  is left by \<open>break\<close>: the started trials are exactly \<open>0, ..., i\<close>, the last log line
  is the termination message of trial \<open>i\<close>, the aggregate metrics are those of \<open>s\<close>,
  and, when the session got as far as its loop and the reporting calls return,
  \<open>main\<close> returns the report with the log and the two plots drawn from those metrics.
\<close>

theorem C2_cancellation_stops_and_reports:
  assumes "wf_rng r" and "i < nat (num_trials a)"
    and "train_model w i = Raised KeyboardInterrupt"
    and "trial_loop a w [0..<i] (init_session r) = Next s"
    and "setup_succeeds w i"
  shows "\<exists>s' d1 d2.
           trial_loop a w (trial_indices a) (init_session r) = Break s'
           \<and> started s' = {0..i}
           \<and> (\<exists>cfg. log_file s' = log_file s @ cfg @ [(i, UserInitiatedTermination)])
           \<and> stat_totals s' = stat_totals s
           \<and> stat_totals s = [(AVERAGE_PRECISION_STAT_LABEL, d1), (AVERAGE_RECALL_STAT_LABEL, d2)]
           \<and> (session_starts w \<and> report_succeeds w \<longrightarrow>
                main a w r =
                  Inr \<lparr>written_log = log_file s',
                       plot_AP = \<lparr>plot_title = AVERAGE_PRECISION_STAT_LABEL, plot_lines = d1\<rparr>,
                       plot_AR = \<lparr>plot_title = AVERAGE_RECALL_STAT_LABEL, plot_lines = d2\<rparr>\<rparr>)"
proof -
  have r: "session_inv w s" "started s = {0..<i}" using reached[OF assms(1,4)] by simp_all
  have wf: "wf_rng (random_state s)" using r(1) by (simp add: session_inv_def)
  obtain s1 cfg where s1: "trial a w i s = after_training i (train_model w i) s1"
      "stat_totals s1 = stat_totals s" "log_file s1 = log_file s @ cfg"
      "started s1 = insert i (started s)"
    using trial_enters_training[OF wf assms(5), of a] by blast
  define s' where "s' = log_and_print i UserInitiatedTermination s1"
  have t: "trial a w i s = Break s'" using s1(1) assms(3) by (simp add: s'_def)
  have st': "started s' = {0..i}"
    using s1(4) r(2) by (auto simp: s'_def started_log_and_print)
  have tot: "stat_totals s' = stat_totals s" using s1(2) by (simp add: s'_def log_and_print_def)
  have lg: "\<exists>cfg. log_file s' = log_file s @ cfg @ [(i, UserInitiatedTermination)]"
    using s1(3) by (simp add: s'_def log_and_print_def)
  have loop: "trial_loop a w (trial_indices a) (init_session r) = Break s'"
    using continue_after_reaching[OF assms(2,4)] t by simp
  obtain d1 d2 where d: "stat_totals s = [(AVERAGE_PRECISION_STAT_LABEL, d1), (AVERAGE_RECALL_STAT_LABEL, d2)]"
    using r(1) by (auto simp: session_inv_def)
  have d': "stat_totals s' = [(AVERAGE_PRECISION_STAT_LABEL, d1), (AVERAGE_RECALL_STAT_LABEL, d2)]"
    using d tot by simp
  have rp: "session_starts w \<and> report_succeeds w \<longrightarrow>
                main a w r =
                  Inr \<lparr>written_log = log_file s',
                       plot_AP = \<lparr>plot_title = AVERAGE_PRECISION_STAT_LABEL, plot_lines = d1\<rparr>,
                       plot_AR = \<lparr>plot_title = AVERAGE_RECALL_STAT_LABEL, plot_lines = d2\<rparr>\<rparr>"
  proof
    assume h: "session_starts w \<and> report_succeeds w"
    show "main a w r =
                  Inr \<lparr>written_log = log_file s',
                       plot_AP = \<lparr>plot_title = AVERAGE_PRECISION_STAT_LABEL, plot_lines = d1\<rparr>,
                       plot_AR = \<lparr>plot_title = AVERAGE_RECALL_STAT_LABEL, plot_lines = d2\<rparr>\<rparr>"
      using loop finish_ok[OF d' conjunct2[OF h]] by (simp add: main_unfold[OF conjunct1[OF h]])
  qed
  show ?thesis
    apply (rule exI[of _ s'], rule exI[of _ d1], rule exI[of _ d2])
    apply (insert loop st' lg tot d rp)
    apply (intro conjI)
         apply assumption+
    done
qed

text \<open>
  C3, as the code has it. The \<open>try\<close> holds the training call alone and has two
  handlers. With random draws in \<open>[0, 1)\<close> and a session that got as far as its loop:
  \<^item> an exception \<open>e\<close> ends \<open>main\<close> when some trial \<open>k\<close> of the session ends with \<open>e\<close>
    leaving the loop and every earlier trial let the loop go on;
  \<^item> when no trial does so and the reporting calls return, \<open>main\<close> returns its report;
  \<^item> a trial ends with an exception leaving the loop when a call of its setup raises
    (whatever the exception, a \<open>RuntimeError\<close> included: lines 148 to 181 are outside
    the \<open>try\<close>), when its training call raises an exception that is neither a
    \<open>RuntimeError\<close> nor a \<open>KeyboardInterrupt\<close>, and when the returned dict lacks one of
    the two metrics (the \<open>KeyError\<close> of lines 201 to 217, after the \<open>try\<close>);
  \<^item> a trial whose setup returns lets the loop go on when its training call raises a
    \<open>RuntimeError\<close> or returns both metrics, and is cancelled when the call raises
    \<open>KeyboardInterrupt\<close>.
\<close>

theorem C3_only_handled_exceptions_are_contained:
  assumes "wf_rng r" and "session_starts w"
  shows "(\<forall>k e. k < nat (num_trials a) \<and> (\<forall>j<k. goes_on w j) \<and> escapes_at w k = Some e
            \<longrightarrow> main a w r = Inl e)
       \<and> (report_succeeds w
            \<and> \<not> (\<exists>k < nat (num_trials a). escapes_at w k \<noteq> None \<and> (\<forall>j<k. goes_on w j))
            \<longrightarrow> (\<exists>rep. main a w r = Inr rep))
       \<and> (\<forall>k e. setup_error w k = Some e \<longrightarrow> escapes_at w k = Some e)
       \<and> (\<forall>k. setup_succeeds w k \<longrightarrow>
            (\<forall>x. train_model w k = Raised x \<and> (\<forall>err. x \<noteq> RuntimeError err) \<and> x \<noteq> KeyboardInterrupt
                  \<longrightarrow> escapes_at w k = Some x)
            \<and> (\<forall>metrics. train_model w k = Returned metrics
                    \<and> map_of metrics AVERAGE_PRECISION_STAT_LABEL = None
                  \<longrightarrow> escapes_at w k = Some (KeyError AVERAGE_PRECISION_STAT_LABEL))
            \<and> (\<forall>metrics. train_model w k = Returned metrics
                    \<and> map_of metrics AVERAGE_PRECISION_STAT_LABEL \<noteq> None
                    \<and> map_of metrics AVERAGE_RECALL_STAT_LABEL = None
                  \<longrightarrow> escapes_at w k = Some (KeyError AVERAGE_RECALL_STAT_LABEL))
            \<and> (\<forall>err. train_model w k = Raised (RuntimeError err) \<longrightarrow> goes_on w k)
            \<and> (\<forall>metrics. train_model w k = Returned metrics
                    \<and> map_of metrics AVERAGE_PRECISION_STAT_LABEL \<noteq> None
                    \<and> map_of metrics AVERAGE_RECALL_STAT_LABEL \<noteq> None
                  \<longrightarrow> goes_on w k)
            \<and> (train_model w k = Raised KeyboardInterrupt \<longrightarrow> cancelled_at w k))"
proof -
  have d: "distinct (trial_indices a)" by (simp add: trial_indices_def)
  have f: "started (init_session r) \<inter> set (trial_indices a) = {}" by (simp add: started_init)
  have p1: "\<forall>k e. k < nat (num_trials a) \<and> (\<forall>j<k. goes_on w j) \<and> escapes_at w k = Some e
            \<longrightarrow> main a w r = Inl e"
    using main_escapes[OF assms(1) _ _ _ assms(2)] by blast
  have p2: "report_succeeds w
            \<and> \<not> (\<exists>k < nat (num_trials a). escapes_at w k \<noteq> None \<and> (\<forall>j<k. goes_on w j))
            \<longrightarrow> (\<exists>rep. main a w r = Inr rep)"
  proof
    assume h: "report_succeeds w
            \<and> \<not> (\<exists>k < nat (num_trials a). escapes_at w k \<noteq> None \<and> (\<forall>j<k. goes_on w j))"
    consider
      (ended) s' where "trial_loop a w (trial_indices a) (init_session r) = Next s'
                        \<or> trial_loop a w (trial_indices a) (init_session r) = Break s'"
        "session_inv w s'"
    | (raised) s' e' xs k ys where "trial_indices a = xs @ k # ys"
        "\<forall>j\<in>set xs. goes_on w j" "escapes_at w k = Some e'"
        "trial_loop a w (trial_indices a) (init_session r) = Raise e' s'"
      using trial_loop_cases[OF session_inv_init[OF assms(1)] d f, of a] by blast
    then show "\<exists>rep. main a w r = Inr rep"
    proof cases
      case ended
      obtain rep where rep: "finish w s' = Inr rep"
        using session_inv_finish[OF ended(2) conjunct1[OF h]] by blast
      have "main a w r = Inr rep"
        using ended(1) rep by (auto simp: main_unfold[OF assms(2)])
      then show ?thesis by blast
    next
      case raised
      have k: "xs = [0..<k]" "k < nat (num_trials a)"
        using upt_split[of 0 "nat (num_trials a)" xs k ys] raised(1)
        by (simp_all add: trial_indices_def)
      have c: "\<forall>j<k. goes_on w j" using raised(2) k(1) by simp
      have "\<exists>k < nat (num_trials a). escapes_at w k \<noteq> None \<and> (\<forall>j<k. goes_on w j)"
        using k(2) c raised(3) by force
      then show ?thesis using h by blast
    qed
  qed
  have p3: "\<forall>k e. setup_error w k = Some e \<longrightarrow> escapes_at w k = Some e"
    by (simp add: escapes_at_def)
  have p4: "\<forall>k. setup_succeeds w k \<longrightarrow>
            (\<forall>x. train_model w k = Raised x \<and> (\<forall>err. x \<noteq> RuntimeError err) \<and> x \<noteq> KeyboardInterrupt
                  \<longrightarrow> escapes_at w k = Some x)
            \<and> (\<forall>metrics. train_model w k = Returned metrics
                    \<and> map_of metrics AVERAGE_PRECISION_STAT_LABEL = None
                  \<longrightarrow> escapes_at w k = Some (KeyError AVERAGE_PRECISION_STAT_LABEL))
            \<and> (\<forall>metrics. train_model w k = Returned metrics
                    \<and> map_of metrics AVERAGE_PRECISION_STAT_LABEL \<noteq> None
                    \<and> map_of metrics AVERAGE_RECALL_STAT_LABEL = None
                  \<longrightarrow> escapes_at w k = Some (KeyError AVERAGE_RECALL_STAT_LABEL))
            \<and> (\<forall>err. train_model w k = Raised (RuntimeError err) \<longrightarrow> goes_on w k)
            \<and> (\<forall>metrics. train_model w k = Returned metrics
                    \<and> map_of metrics AVERAGE_PRECISION_STAT_LABEL \<noteq> None
                    \<and> map_of metrics AVERAGE_RECALL_STAT_LABEL \<noteq> None
                  \<longrightarrow> goes_on w k)
            \<and> (train_model w k = Raised KeyboardInterrupt \<longrightarrow> cancelled_at w k)"
  proof (intro allI impI)
    fix k assume su: "setup_succeeds w k"
    have se: "setup_error w k = None" using su by (simp add: setup_succeeds_def)
    have q1: "\<forall>x. train_model w k = Raised x \<and> (\<forall>err. x \<noteq> RuntimeError err) \<and> x \<noteq> KeyboardInterrupt
                  \<longrightarrow> escapes_at w k = Some x"
    proof (intro allI impI)
      fix x assume "train_model w k = Raised x \<and> (\<forall>err. x \<noteq> RuntimeError err) \<and> x \<noteq> KeyboardInterrupt"
      then show "escapes_at w k = Some x" using se by (cases x) (simp_all add: escapes_at_def)
    qed
    have q2: "\<forall>metrics. train_model w k = Returned metrics
                    \<and> map_of metrics AVERAGE_PRECISION_STAT_LABEL = None
                  \<longrightarrow> escapes_at w k = Some (KeyError AVERAGE_PRECISION_STAT_LABEL)"
      using se by (simp add: escapes_at_def)
    have q3: "\<forall>metrics. train_model w k = Returned metrics
                    \<and> map_of metrics AVERAGE_PRECISION_STAT_LABEL \<noteq> None
                    \<and> map_of metrics AVERAGE_RECALL_STAT_LABEL = None
                  \<longrightarrow> escapes_at w k = Some (KeyError AVERAGE_RECALL_STAT_LABEL)"
      using se by (simp add: escapes_at_def)
    have q4: "\<forall>err. train_model w k = Raised (RuntimeError err) \<longrightarrow> goes_on w k"
      using su by (simp add: goes_on_def continues_def)
    have q5: "\<forall>metrics. train_model w k = Returned metrics
                    \<and> map_of metrics AVERAGE_PRECISION_STAT_LABEL \<noteq> None
                    \<and> map_of metrics AVERAGE_RECALL_STAT_LABEL \<noteq> None
                  \<longrightarrow> goes_on w k"
      using su by (simp add: goes_on_def continues_def)
    have q6: "train_model w k = Raised KeyboardInterrupt \<longrightarrow> cancelled_at w k"
      using su by (simp add: cancelled_at_def)
    show "(\<forall>x. train_model w k = Raised x \<and> (\<forall>err. x \<noteq> RuntimeError err) \<and> x \<noteq> KeyboardInterrupt
                  \<longrightarrow> escapes_at w k = Some x)
            \<and> (\<forall>metrics. train_model w k = Returned metrics
                    \<and> map_of metrics AVERAGE_PRECISION_STAT_LABEL = None
                  \<longrightarrow> escapes_at w k = Some (KeyError AVERAGE_PRECISION_STAT_LABEL))
            \<and> (\<forall>metrics. train_model w k = Returned metrics
                    \<and> map_of metrics AVERAGE_PRECISION_STAT_LABEL \<noteq> None
                    \<and> map_of metrics AVERAGE_RECALL_STAT_LABEL = None
                  \<longrightarrow> escapes_at w k = Some (KeyError AVERAGE_RECALL_STAT_LABEL))
            \<and> (\<forall>err. train_model w k = Raised (RuntimeError err) \<longrightarrow> goes_on w k)
            \<and> (\<forall>metrics. train_model w k = Returned metrics
                    \<and> map_of metrics AVERAGE_PRECISION_STAT_LABEL \<noteq> None
                    \<and> map_of metrics AVERAGE_RECALL_STAT_LABEL \<noteq> None
                  \<longrightarrow> goes_on w k)
            \<and> (train_model w k = Raised KeyboardInterrupt \<longrightarrow> cancelled_at w k)"
      using q1 q2 q3 q4 q5 q6 by (intro conjI) assumption+
  qed
  show ?thesis using p1 p2 p3 p4 by (intro conjI) assumption+
qed

lemma example_metrics_continue: "continues (Returned example_metrics)"
  by (simp add: continues_def example_metrics_def AVERAGE_PRECISION_STAT_LABEL_def
      AVERAGE_RECALL_STAT_LABEL_def)

lemma example_world_environment:
  "session_starts (example_world f)" "report_succeeds (example_world f)"
  "setup_succeeds (example_world f) i"
  by (simp_all add: session_starts_def report_succeeds_def setup_succeeds_def setup_error_def
      example_world_def)

theorem C1_witness:
  "wf_rng (\<lambda>n. 0)
   \<and> (2::nat) < nat (num_trials (example_args 5))
   \<and> setup_succeeds
        (example_world (\<lambda>i. if i = 2 then Raised (RuntimeError ''loss is nan'')
                            else Returned example_metrics)) 2
   \<and> (\<exists>s s''.
        trial_loop (example_args 5)
          (example_world (\<lambda>i. if i = 2 then Raised (RuntimeError ''loss is nan'')
                              else Returned example_metrics))
          [0..<2] (init_session (\<lambda>n. 0)) = Next s
        \<and> trial_loop (example_args 5)
            (example_world (\<lambda>i. if i = 2 then Raised (RuntimeError ''loss is nan'')
                                else Returned example_metrics))
            (trial_indices (example_args 5)) (init_session (\<lambda>n. 0)) = Next s''
        \<and> started s'' = {0..<5}
        \<and> aggregate s'' AVERAGE_PRECISION_STAT_LABEL 2 = None
        \<and> aggregate s'' AVERAGE_RECALL_STAT_LABEL 2 = None
        \<and> (2, TrainingFailed ''loss is nan'') \<in> set (log_file s'')
        \<and> map fst (the (map_of (stat_totals s'') AVERAGE_PRECISION_STAT_LABEL)) = [0, 1, 3, 4]
        \<and> map fst (the (map_of (stat_totals s'') AVERAGE_RECALL_STAT_LABEL)) = [0, 1, 3, 4])
   \<and> (\<exists>rep. main (example_args 5)
              (example_world (\<lambda>i. if i = 2 then Raised (RuntimeError ''loss is nan'')
                                  else Returned example_metrics))
              (\<lambda>n. 0) = Inr rep)"
proof -
  define w where "w = example_world (\<lambda>i. if i = 2 then Raised (RuntimeError ''loss is nan'')
                              else Returned example_metrics)"
  define s where "s = state_of (trial_loop (example_args 5) w [0..<2] (init_session (\<lambda>n. 0)))"
  have h2: "(2::nat) < nat (num_trials (example_args 5))" by (simp add: example_args_def)
  have h3: "train_model w 2 = Raised (RuntimeError ''loss is nan'')"
    by (simp add: w_def example_world_def)
  have h4: "trial_loop (example_args 5) w [0..<2] (init_session (\<lambda>n. 0)) = Next s"
    unfolding s_def w_def by (simp add: eval_defs)
  have h5: "setup_succeeds w 2" unfolding w_def by (rule example_world_environment)
  have env: "session_starts w \<and> report_succeeds w"
    unfolding w_def by (simp add: example_world_environment)
  have c: "\<forall>j. 2 < j \<and> j < nat (num_trials (example_args 5)) \<longrightarrow> goes_on w j"
    using example_metrics_continue
    by (simp add: goes_on_def w_def example_world_environment) (simp add: example_world_def)
  obtain s'' where s'':
      "trial_loop (example_args 5) w (trial_indices (example_args 5)) (init_session (\<lambda>n. 0)) = Next s''"
      "started s'' = {0..<nat (num_trials (example_args 5))}"
      "aggregate s'' AVERAGE_PRECISION_STAT_LABEL 2 = None"
      "aggregate s'' AVERAGE_RECALL_STAT_LABEL 2 = None"
      "session_starts w \<and> report_succeeds w \<longrightarrow>
         (\<exists>rep. main (example_args 5) w (\<lambda>n. 0) = Inr rep)"
    using C1_runtime_error_is_logged_and_skipped[OF wf_rng_zero h2 h3 h4 h5] c by blast
  obtain rep where rp: "main (example_args 5) w (\<lambda>n. 0) = Inr rep" using s''(5) env by blast
  have ev: "s'' = state_of (trial_loop (example_args 5) w (trial_indices (example_args 5))
                              (init_session (\<lambda>n. 0)))"
    using s''(1) by simp
  have lg: "(2, TrainingFailed ''loss is nan'') \<in> set (log_file s'')"
    unfolding ev w_def by (simp add: eval_defs)
  have k1: "map fst (the (map_of (stat_totals s'') AVERAGE_PRECISION_STAT_LABEL)) = [0, 1, 3, 4]"
    unfolding ev w_def by (simp add: eval_defs)
  have k2: "map fst (the (map_of (stat_totals s'') AVERAGE_RECALL_STAT_LABEL)) = [0, 1, 3, 4]"
    unfolding ev w_def by (simp add: eval_defs)
  have st: "started s'' = {0..<5}" using s''(2) by (simp add: example_args_def)
  show ?thesis
    using wf_rng_zero h2 h5 h4 s''(1,3,4) st lg k1 k2 rp unfolding w_def
    by (intro conjI exI) assumption+
qed

theorem C2_witness:
  "wf_rng (\<lambda>n. 0)
   \<and> (3::nat) < nat (num_trials (example_args 10))
   \<and> setup_succeeds
        (example_world (\<lambda>i. if i = 3 then Raised KeyboardInterrupt else Returned example_metrics)) 3
   \<and> session_starts
        (example_world (\<lambda>i. if i = 3 then Raised KeyboardInterrupt else Returned example_metrics))
   \<and> report_succeeds
        (example_world (\<lambda>i. if i = 3 then Raised KeyboardInterrupt else Returned example_metrics))
   \<and> (\<exists>s s' d1 d2.
        trial_loop (example_args 10)
          (example_world (\<lambda>i. if i = 3 then Raised KeyboardInterrupt else Returned example_metrics))
          [0..<3] (init_session (\<lambda>n. 0)) = Next s
        \<and> trial_loop (example_args 10)
            (example_world (\<lambda>i. if i = 3 then Raised KeyboardInterrupt else Returned example_metrics))
            (trial_indices (example_args 10)) (init_session (\<lambda>n. 0)) = Break s'
        \<and> started s' = {0..3}
        \<and> stat_totals s' = stat_totals s
        \<and> stat_totals s = [(AVERAGE_PRECISION_STAT_LABEL, d1), (AVERAGE_RECALL_STAT_LABEL, d2)]
        \<and> map fst d1 = [0, 1, 2] \<and> map fst d2 = [0, 1, 2]
        \<and> last (log_file s') = (3, UserInitiatedTermination)
        \<and> main (example_args 10)
            (example_world (\<lambda>i. if i = 3 then Raised KeyboardInterrupt else Returned example_metrics))
            (\<lambda>n. 0) =
            Inr \<lparr>written_log = log_file s',
                 plot_AP = \<lparr>plot_title = AVERAGE_PRECISION_STAT_LABEL, plot_lines = d1\<rparr>,
                 plot_AR = \<lparr>plot_title = AVERAGE_RECALL_STAT_LABEL, plot_lines = d2\<rparr>\<rparr>)"
proof -
  define w where "w = example_world (\<lambda>i. if i = 3 then Raised KeyboardInterrupt else Returned example_metrics)"
  define s where "s = state_of (trial_loop (example_args 10) w [0..<3] (init_session (\<lambda>n. 0)))"
  have h2: "(3::nat) < nat (num_trials (example_args 10))" by (simp add: example_args_def)
  have h3: "train_model w 3 = Raised KeyboardInterrupt"
    by (simp add: w_def example_world_def)
  have h4: "trial_loop (example_args 10) w [0..<3] (init_session (\<lambda>n. 0)) = Next s"
    unfolding s_def w_def by (simp add: eval_defs)
  have h5: "setup_succeeds w 3" unfolding w_def by (rule example_world_environment)
  have e1: "session_starts w" unfolding w_def by (rule example_world_environment)
  have e2: "report_succeeds w" unfolding w_def by (rule example_world_environment)
  obtain s' d1 d2 where r:
      "trial_loop (example_args 10) w (trial_indices (example_args 10)) (init_session (\<lambda>n. 0)) = Break s'"
      "started s' = {0..3}"
      "\<exists>cfg. log_file s' = log_file s @ cfg @ [(3, UserInitiatedTermination)]"
      "stat_totals s' = stat_totals s"
      "stat_totals s = [(AVERAGE_PRECISION_STAT_LABEL, d1), (AVERAGE_RECALL_STAT_LABEL, d2)]"
      "session_starts w \<and> report_succeeds w \<longrightarrow>
         main (example_args 10) w (\<lambda>n. 0) =
            Inr \<lparr>written_log = log_file s',
                 plot_AP = \<lparr>plot_title = AVERAGE_PRECISION_STAT_LABEL, plot_lines = d1\<rparr>,
                 plot_AR = \<lparr>plot_title = AVERAGE_RECALL_STAT_LABEL, plot_lines = d2\<rparr>\<rparr>"
    using C2_cancellation_stops_and_reports[OF wf_rng_zero h2 h3 h4 h5] by blast
  have m: "main (example_args 10) w (\<lambda>n. 0) =
            Inr \<lparr>written_log = log_file s',
                 plot_AP = \<lparr>plot_title = AVERAGE_PRECISION_STAT_LABEL, plot_lines = d1\<rparr>,
                 plot_AR = \<lparr>plot_title = AVERAGE_RECALL_STAT_LABEL, plot_lines = d2\<rparr>\<rparr>"
    using r(6) e1 e2 by blast
  have la: "last (log_file s') = (3, UserInitiatedTermination)" using r(3) by auto
  have "stat_totals s = [(AVERAGE_PRECISION_STAT_LABEL, [(0, [0.25, 0.5]), (1, [0.25, 0.5]), (2, [0.25, 0.5])]),
                         (AVERAGE_RECALL_STAT_LABEL, [(0, [0.5, 0.75]), (1, [0.5, 0.75]), (2, [0.5, 0.75])])]"
    unfolding s_def w_def by (simp add: eval_defs numeral_2_eq_2)
  then have k: "map fst d1 = [0, 1, 2]" "map fst d2 = [0, 1, 2]" using r(5) by simp_all
  show ?thesis
    using wf_rng_zero h2 h5 e1 e2 h4 r(1,2,4,5) k la m unfolding w_def
    by (intro conjI exI) assumption+
qed

text \<open>
  C3 as stated fails. A \<open>ValueError\<close> raised by the training call of trial 1 is not
  a user cancellation, yet it leaves the loop and ends \<open>main\<close>; and a returned metrics
  dict without the recall entry makes the code after the \<open>try\<close> raise a \<open>KeyError\<close>
  that ends \<open>main\<close> as well.
\<close>

theorem C3_counterexample:
  "main (example_args 3)
     (example_world (\<lambda>i. if i = 1 then Raised ValueError else Returned example_metrics))
     (\<lambda>n. 0) = Inl ValueError
   \<and> main (example_args 3)
       (example_world (\<lambda>i. if i = 1 then Returned [(AVERAGE_PRECISION_STAT_LABEL, [0.25, 0.5])]
                           else Returned example_metrics))
       (\<lambda>n. 0) = Inl (KeyError AVERAGE_RECALL_STAT_LABEL)"
  by (simp add: eval_defs)

theorem C3_witness:
  "wf_rng (\<lambda>n. 0)
   \<and> main (example_args 3)
       (example_world (\<lambda>i. if i = 1 then Raised (OtherError ''MemoryError'' ''out of memory'')
                           else Returned example_metrics))
       (\<lambda>n. 0) = Inl (OtherError ''MemoryError'' ''out of memory'')
   \<and> main (example_args 3)
       ((example_world (\<lambda>i. Returned example_metrics))
          \<lparr>model_error := \<lambda>i. if i = 1 then Some (RuntimeError ''CUDA out of memory'') else None\<rparr>)
       (\<lambda>n. 0) = Inl (RuntimeError ''CUDA out of memory'')
   \<and> (\<exists>rep. main (example_args 3)
              (example_world (\<lambda>i. if i = 1 then Raised (RuntimeError ''loss is nan'')
                                  else if i = 2 then Raised KeyboardInterrupt
                                  else Returned example_metrics))
              (\<lambda>n. 0) = Inr rep)"
proof -
  define w1 where "w1 = example_world (\<lambda>i. if i = 1 then Raised (OtherError ''MemoryError'' ''out of memory'')
                           else Returned example_metrics)"
  define w2 where "w2 = example_world (\<lambda>i. if i = 1 then Raised (RuntimeError ''loss is nan'')
                                  else if i = 2 then Raised KeyboardInterrupt
                                  else Returned example_metrics)"
  define w3 where "w3 = (example_world (\<lambda>i. Returned example_metrics))
          \<lparr>model_error := \<lambda>i. if i = 1 then Some (RuntimeError ''CUDA out of memory'') else None\<rparr>"
  have n: "(1::nat) < nat (num_trials (example_args 3))" by (simp add: example_args_def)
  have s1: "session_starts w1" unfolding w1_def by (rule example_world_environment)
  have s2: "session_starts w2" unfolding w2_def by (rule example_world_environment)
  have s3: "session_starts w3" by (simp add: w3_def session_starts_def example_world_def)
  have r2: "report_succeeds w2" unfolding w2_def by (rule example_world_environment)
  have g1: "\<forall>j<1. goes_on w1 j" by (simp add: w1_def env_defs)
  have x1: "escapes_at w1 1 = Some (OtherError ''MemoryError'' ''out of memory'')"
    by (simp add: w1_def env_defs)
  have a: "main (example_args 3) w1 (\<lambda>n. 0) = Inl (OtherError ''MemoryError'' ''out of memory'')"
    using C3_only_handled_exceptions_are_contained[OF wf_rng_zero s1, of "example_args 3"]
      n g1 x1 by blast
  have g3: "\<forall>j<1. goes_on w3 j" by (simp add: w3_def env_defs)
  have x3: "escapes_at w3 1 = Some (RuntimeError ''CUDA out of memory'')"
    by (simp add: w3_def env_defs)
  have c: "main (example_args 3) w3 (\<lambda>n. 0) = Inl (RuntimeError ''CUDA out of memory'')"
    using C3_only_handled_exceptions_are_contained[OF wf_rng_zero s3, of "example_args 3"]
      n g3 x3 by blast
  have none: "\<not> (\<exists>k < nat (num_trials (example_args 3)). escapes_at w2 k \<noteq> None
                \<and> (\<forall>j<k. goes_on w2 j))"
    by (simp add: w2_def env_defs)
  have b: "\<exists>rep. main (example_args 3) w2 (\<lambda>n. 0) = Inr rep"
    using C3_only_handled_exceptions_are_contained[OF wf_rng_zero s2, of "example_args 3"]
      r2 none by blast
  show ?thesis using wf_rng_zero a c b unfolding w1_def w2_def w3_def
    by (intro conjI) assumption+
qed

section \<open>What the log records of a trial's configuration\<close>

lemma Optimizer_get_next_ignores_training:
  "Optimizer_get_next (w\<lparr>train_model := f\<rparr>) spec r = Optimizer_get_next w spec r"
  by (simp add: Optimizer_get_next_def split: sum.splits)

lemma LRScheduler_get_next_ignores_training:
  "LRScheduler_get_next (w\<lparr>train_model := f\<rparr>) spec opt r = LRScheduler_get_next w spec opt r"
  by (simp add: LRScheduler_get_next_def split: sum.splits)

lemma choose_optimizer_ignores_training:
  "choose_optimizer (w\<lparr>train_model := f\<rparr>) i s = choose_optimizer w i s"
  by (simp add: choose_optimizer_def Optimizer_get_next_ignores_training
      cong: sum.case_cong option.case_cong)

lemma choose_lr_scheduler_ignores_training:
  "choose_lr_scheduler (w\<lparr>train_model := f\<rparr>) i choices opt s = choose_lr_scheduler w i choices opt s"
  by (simp add: choose_lr_scheduler_def LRScheduler_get_next_ignores_training
      cong: sum.case_cong option.case_cong)

lemma trial_setup_ignores_training:
  "trial_setup a (w\<lparr>train_model := f\<rparr>) i s = trial_setup a w i s"
  by (simp add: trial_setup_def choose_optimizer_ignores_training
      choose_lr_scheduler_ignores_training Let_def cong: sum.case_cong option.case_cong)

lemma setup_succeeds_ignores_training:
  "setup_succeeds (w\<lparr>train_model := f\<rparr>) i = setup_succeeds w i"
  by (simp add: setup_succeeds_def setup_error_def cong: option.case_cong)

lemma random_choice_member:
  "random_choice xs r = Inr (x, r') \<Longrightarrow> x \<in> set xs"
  by (auto simp: random_choice_def Let_def split: if_splits)

lemma choose_lr_scheduler_logs:
  assumes "choose_lr_scheduler w i choices opt s = (Inr (Some sched), s')"
  shows "\<exists>spec. Some spec \<in> set choices
           \<and> log_file s' = log_file s @
               [(i, LRSchedulerChoice (name spec)),
                (i, LRSchedulerProperties
                      (filter (\<lambda>(key, v). key \<noteq> ''optimizer'') (attrs sched)))]"
proof (cases "random_choice choices (random_state s)")
  case (Inl e)
  then show ?thesis using assms by (simp add: choose_lr_scheduler_def)
next
  case (Inr p)
  obtain c r1 where p: "p = (c, r1)" by (cases p)
  have mem: "c \<in> set choices" using Inr p random_choice_member by fastforce
  show ?thesis
  proof (cases c)
    case None
    then show ?thesis using assms Inr p by (simp add: choose_lr_scheduler_def)
  next
    case (Some spec)
    show ?thesis
    proof (cases "LRScheduler_get_next w spec opt r1")
      case (Inl e)
      then show ?thesis using assms Inr p Some by (simp add: choose_lr_scheduler_def)
    next
      case (Inr q)
      obtain sc r2 where q: "q = (sc, r2)" by (cases q)
      have "sched = sc" "s' = log_and_print i
                  (LRSchedulerProperties (filter (\<lambda>(key, v). key \<noteq> ''optimizer'') (attrs sc)))
                  (log_and_print i (LRSchedulerChoice (name spec)) (s\<lparr>random_state := r2\<rparr>))"
        using assms \<open>random_choice choices (random_state s) = Inr p\<close> p Some Inr q
        by (auto simp add: choose_lr_scheduler_def)
      then have "log_file s' = log_file s @
               [(i, LRSchedulerChoice (name spec)),
                (i, LRSchedulerProperties
                      (filter (\<lambda>(key, v). key \<noteq> ''optimizer'') (attrs sched)))]"
        by (simp add: log_and_print_def)
      then show ?thesis using mem Some by blast
    qed
  qed
qed

text \<open>
  C5 as stated fails. With the first optimizer kind picked and a constructor that
  adds a hyperparameter of its own, the sampled values are \<open>lr\<close>, \<open>momentum\<close> and
  \<open>weight_decay\<close>, while the properties line of the log holds the \<open>defaults\<close> of the
  constructed optimizer, \<open>dampening\<close> included: what the object reports about itself.
\<close>

theorem C5_counterexample:
  "resolve_options (options SGD) (rest (\<lambda>n. 0)) =
     Inr ([(''lr'', 0.0005), (''momentum'', 0), (''weight_decay'', 0)], \<lambda>n. 0)
   \<and> log_file (snd (trial_setup (example_args 1) (example_world (\<lambda>i. Returned example_metrics)) 0
                     (init_session (\<lambda>n. 0)))) =
       [(0, StartTime 1600000000),
        (0, ModelIs ''fasterrcnn_resnet50''),
        (0, OptimizerChoice ''SGD''),
        (0, OptimizerProperties
              [(''lr'', 0.0005), (''momentum'', 0), (''weight_decay'', 0), (''dampening'', 0)])]
   \<and> (0, OptimizerProperties [(''lr'', 0.0005), (''momentum'', 0), (''weight_decay'', 0)])
       \<notin> set (log_file (snd (trial_setup (example_args 1)
                                 (example_world (\<lambda>i. Returned example_metrics)) 0
                                 (init_session (\<lambda>n. 0)))))"
  by (simp add: eval_defs)

text \<open>
  C5, as the code has it. In every trial in which the calls of the setup return, the
  setup picks a kind \<open>spec\<close>, samples its options into \<open>kw\<close>, constructs the
  optimizer from the kind name and \<open>kw\<close>, and logs the kind name and the \<open>defaults\<close>
  dict of the constructed optimizer; the sampled values themselves are not logged. A
  scheduler's line holds the attributes of the constructed scheduler other than
  \<open>optimizer\<close>.
\<close>

theorem C5_logged_properties_are_the_objects_own:
  assumes "wf_rng (random_state s)" and "setup_succeeds w i"
  shows "(\<exists>spec kw r1 opt s1.
            spec \<in> set optimizer_choices
            \<and> resolve_options (options spec) (rest (random_state s)) = Inr (kw, r1)
            \<and> opt = construct_optimizer w (name spec) kw
            \<and> trial_setup a w i s = (Inr (opt, None), s1)
            \<and> log_file s1 = log_file s @
                 [(i, StartTime (clock w i)),
                  (i, ModelIs (network a)),
                  (i, OptimizerChoice (name spec)),
                  (i, OptimizerProperties (defaults opt))])
       \<and> (\<forall>choices opt0 s0 sched s'.
             choose_lr_scheduler w i choices opt0 s0 = (Inr (Some sched), s') \<longrightarrow>
             (\<exists>spec. Some spec \<in> set choices
                \<and> log_file s' = log_file s0 @
                     [(i, LRSchedulerChoice (name spec)),
                      (i, LRSchedulerProperties
                            (filter (\<lambda>(key, v). key \<noteq> ''optimizer'') (attrs sched)))]))"
proof -
  obtain spec kw r1 r' where c:
      "spec \<in> set optimizer_choices"
      "resolve_options (options spec) (rest (random_state s)) = Inr (kw, r1)"
      "wf_rng r'"
      "trial_setup a w i s =
               (Inr (construct_optimizer w (name spec) kw, None),
                s\<lparr>log_file := log_file s @
                     [(i, StartTime (clock w i)),
                      (i, ModelIs (network a)),
                      (i, OptimizerChoice (name spec)),
                      (i, OptimizerProperties (defaults (construct_optimizer w (name spec) kw)))],
                   random_state := r'\<rparr>)"
    using trial_setup_ok[OF assms, of a] by blast
  define s1 where "s1 = s\<lparr>log_file := log_file s @
                     [(i, StartTime (clock w i)),
                      (i, ModelIs (network a)),
                      (i, OptimizerChoice (name spec)),
                      (i, OptimizerProperties (defaults (construct_optimizer w (name spec) kw)))],
                   random_state := r'\<rparr>"
  have l: "log_file s1 = log_file s @
                     [(i, StartTime (clock w i)),
                      (i, ModelIs (network a)),
                      (i, OptimizerChoice (name spec)),
                      (i, OptimizerProperties (defaults (construct_optimizer w (name spec) kw)))]"
    by (simp add: s1_def)
  have t: "trial_setup a w i s = (Inr (construct_optimizer w (name spec) kw, None), s1)"
    using c(4) by (simp add: s1_def)
  have first: "\<exists>spec kw r1 opt s1.
            spec \<in> set optimizer_choices
            \<and> resolve_options (options spec) (rest (random_state s)) = Inr (kw, r1)
            \<and> opt = construct_optimizer w (name spec) kw
            \<and> trial_setup a w i s = (Inr (opt, None), s1)
            \<and> log_file s1 = log_file s @
                 [(i, StartTime (clock w i)),
                  (i, ModelIs (network a)),
                  (i, OptimizerChoice (name spec)),
                  (i, OptimizerProperties (defaults opt))]"
    using c(1,2) t l by blast
  show ?thesis using first choose_lr_scheduler_logs by blast
qed

theorem C5_witness:
  "wf_rng (random_state (init_session (\<lambda>n. 0)))
   \<and> setup_succeeds (example_world (\<lambda>i. Returned example_metrics)) 0
   \<and> resolve_options (options SGD) (rest (random_state (init_session (\<lambda>n. 0)))) =
       Inr ([(''lr'', 0.0005), (''momentum'', 0), (''weight_decay'', 0)], \<lambda>n. 0)
   \<and> fst (trial_setup (example_args 1) (example_world (\<lambda>i. Returned example_metrics)) 0
            (init_session (\<lambda>n. 0))) =
       Inr (example_optimizer ''SGD'' [(''lr'', 0.0005), (''momentum'', 0), (''weight_decay'', 0)], None)
   \<and> log_file (snd (trial_setup (example_args 1) (example_world (\<lambda>i. Returned example_metrics)) 0
                     (init_session (\<lambda>n. 0)))) =
       [(0, StartTime 1600000000),
        (0, ModelIs ''fasterrcnn_resnet50''),
        (0, OptimizerChoice ''SGD''),
        (0, OptimizerProperties
              (defaults (example_optimizer ''SGD''
                 [(''lr'', 0.0005), (''momentum'', 0), (''weight_decay'', 0)])))]
   \<and> log_file (snd (choose_lr_scheduler (example_world (\<lambda>i. Returned example_metrics)) 0
                     example_schedulers \<lparr>defaults = []\<rparr> (init_session (\<lambda>n. 0)))) =
       [(0, LRSchedulerChoice ''StepLR''),
        (0, LRSchedulerProperties [(''gamma'', Number 0.1)])]"
proof -
  have h: "wf_rng (random_state (init_session (\<lambda>n. 0)))"
    by (simp add: init_session_def wf_rng_def)
  have e1: "resolve_options (options SGD) (rest (random_state (init_session (\<lambda>n. 0)))) =
       Inr ([(''lr'', 0.0005), (''momentum'', 0), (''weight_decay'', 0)], \<lambda>n. 0)"
    by (simp add: eval_defs)
  have e2: "fst (trial_setup (example_args 1) (example_world (\<lambda>i. Returned example_metrics)) 0
            (init_session (\<lambda>n. 0))) =
       Inr (example_optimizer ''SGD'' [(''lr'', 0.0005), (''momentum'', 0), (''weight_decay'', 0)], None)"
    by (simp add: eval_defs)
  have e3: "log_file (snd (trial_setup (example_args 1) (example_world (\<lambda>i. Returned example_metrics)) 0
                     (init_session (\<lambda>n. 0)))) =
       [(0, StartTime 1600000000),
        (0, ModelIs ''fasterrcnn_resnet50''),
        (0, OptimizerChoice ''SGD''),
        (0, OptimizerProperties
              (defaults (example_optimizer ''SGD''
                 [(''lr'', 0.0005), (''momentum'', 0), (''weight_decay'', 0)])))]"
    by (simp add: eval_defs)
  have e4: "choose_lr_scheduler (example_world (\<lambda>i. Returned example_metrics)) 0
                     example_schedulers \<lparr>defaults = []\<rparr> (init_session (\<lambda>n. 0)) =
            (Inr (Some (example_lr_scheduler ''StepLR'' \<lparr>defaults = []\<rparr> [(''gamma'', 0.1)])),
             snd (choose_lr_scheduler (example_world (\<lambda>i. Returned example_metrics)) 0
                     example_schedulers \<lparr>defaults = []\<rparr> (init_session (\<lambda>n. 0))))"
    by (simp add: eval_defs example_schedulers_def)
  have h2: "setup_succeeds (example_world (\<lambda>i. Returned example_metrics)) 0"
    by (rule example_world_environment)
  note th = C5_logged_properties_are_the_objects_own[OF h h2, of "example_args 1"]
  from th e4 obtain spec where
    "log_file (snd (choose_lr_scheduler (example_world (\<lambda>i. Returned example_metrics)) 0
                     example_schedulers \<lparr>defaults = []\<rparr> (init_session (\<lambda>n. 0)))) =
       log_file (init_session (\<lambda>n. 0)) @
       [(0, LRSchedulerChoice (name spec)),
        (0, LRSchedulerProperties
              (filter (\<lambda>(key, v). key \<noteq> ''optimizer'')
                 (attrs (example_lr_scheduler ''StepLR'' \<lparr>defaults = []\<rparr> [(''gamma'', 0.1)]))))]"
    "Some spec \<in> set example_schedulers"
    by blast
  then have e5: "log_file (snd (choose_lr_scheduler (example_world (\<lambda>i. Returned example_metrics)) 0
                     example_schedulers \<lparr>defaults = []\<rparr> (init_session (\<lambda>n. 0)))) =
       [(0, LRSchedulerChoice ''StepLR''),
        (0, LRSchedulerProperties [(''gamma'', Number 0.1)])]"
    by (auto simp: example_schedulers_def example_lr_scheduler_def init_session_def)
  show ?thesis using h h2 e1 e2 e3 e5 by (intro conjI) assumption+
qed

text \<open>
  C6. In every trial in which the calls of the setup return, all the log lines of the
  configuration (start time, model, optimizer kind, optimizer properties, and the
  scheduler's two lines when a scheduler was picked) are written by the setup, which
  runs before the training call and does not depend on it: whatever the training call
  does, return or raise, the state handed to the \<open>try\<close> is the same, and what the rest
  of the trial logs is appended after those lines. With a constructor that keeps its keyword values in \<open>defaults\<close>,
  the properties line holds every sampled value.
\<close>

theorem C6_configuration_logged_before_training:
  assumes "wf_rng (random_state s)" and "setup_succeeds w i"
  shows "(\<exists>spec opt s1.
            spec \<in> set optimizer_choices
            \<and> log_file s1 = log_file s @
                 [(i, StartTime (clock w i)),
                  (i, ModelIs (network a)),
                  (i, OptimizerChoice (name spec)),
                  (i, OptimizerProperties (defaults opt))]
            \<and> (\<forall>f. trial_setup a (w\<lparr>train_model := f\<rparr>) i s = (Inr (opt, None), s1))
            \<and> (\<forall>f. trial a (w\<lparr>train_model := f\<rparr>) i s = after_training i (f i) s1)
            \<and> (\<forall>f. \<exists>post. log_file (state_of (trial a (w\<lparr>train_model := f\<rparr>) i s))
                             = log_file s1 @ post))
       \<and> (\<forall>choices opt0 s0 sched s'.
             choose_lr_scheduler w i choices opt0 s0 = (Inr (Some sched), s') \<longrightarrow>
             (\<exists>spec. Some spec \<in> set choices
                \<and> log_file s' = log_file s0 @
                     [(i, LRSchedulerChoice (name spec)),
                      (i, LRSchedulerProperties
                            (filter (\<lambda>(key, v). key \<noteq> ''optimizer'') (attrs sched)))]))
       \<and> (keeps_keywords w \<longrightarrow>
            (\<exists>spec kw r1 props.
               spec \<in> set optimizer_choices
               \<and> resolve_options (options spec) (rest (random_state s)) = Inr (kw, r1)
               \<and> (i, OptimizerChoice (name spec)) \<in> set (log_file (snd (trial_setup a w i s)))
               \<and> (i, OptimizerProperties props) \<in> set (log_file (snd (trial_setup a w i s)))
               \<and> set kw \<subseteq> set props))"
proof -
  obtain spec kw r1 r' where c:
      "spec \<in> set optimizer_choices"
      "resolve_options (options spec) (rest (random_state s)) = Inr (kw, r1)"
      "wf_rng r'"
      "trial_setup a w i s =
               (Inr (construct_optimizer w (name spec) kw, None),
                s\<lparr>log_file := log_file s @
                     [(i, StartTime (clock w i)),
                      (i, ModelIs (network a)),
                      (i, OptimizerChoice (name spec)),
                      (i, OptimizerProperties (defaults (construct_optimizer w (name spec) kw)))],
                   random_state := r'\<rparr>)"
    using trial_setup_ok[OF assms, of a] by blast
  have third: "keeps_keywords w \<longrightarrow>
            (\<exists>spec kw r1 props.
               spec \<in> set optimizer_choices
               \<and> resolve_options (options spec) (rest (random_state s)) = Inr (kw, r1)
               \<and> (i, OptimizerChoice (name spec)) \<in> set (log_file (snd (trial_setup a w i s)))
               \<and> (i, OptimizerProperties props) \<in> set (log_file (snd (trial_setup a w i s)))
               \<and> set kw \<subseteq> set props)"
  proof
    assume k: "keeps_keywords w"
    have k1: "set kw \<subseteq> set (defaults (construct_optimizer w (name spec) kw))"
      using k by (simp add: keeps_keywords_def)
    have k2: "(i, OptimizerChoice (name spec)) \<in> set (log_file (snd (trial_setup a w i s)))"
      by (simp add: c(4))
    have k3: "(i, OptimizerProperties (defaults (construct_optimizer w (name spec) kw)))
                \<in> set (log_file (snd (trial_setup a w i s)))"
      by (simp add: c(4))
    show "\<exists>spec kw r1 props.
               spec \<in> set optimizer_choices
               \<and> resolve_options (options spec) (rest (random_state s)) = Inr (kw, r1)
               \<and> (i, OptimizerChoice (name spec)) \<in> set (log_file (snd (trial_setup a w i s)))
               \<and> (i, OptimizerProperties props) \<in> set (log_file (snd (trial_setup a w i s)))
               \<and> set kw \<subseteq> set props"
      using c(1,2) k1 k2 k3 by blast
  qed
  define opt where "opt = construct_optimizer w (name spec) kw"
  define s1 where "s1 = s\<lparr>log_file := log_file s @
                     [(i, StartTime (clock w i)),
                      (i, ModelIs (network a)),
                      (i, OptimizerChoice (name spec)),
                      (i, OptimizerProperties (defaults opt))],
                   random_state := r'\<rparr>"
  have l: "log_file s1 = log_file s @
                     [(i, StartTime (clock w i)),
                      (i, ModelIs (network a)),
                      (i, OptimizerChoice (name spec)),
                      (i, OptimizerProperties (defaults opt))]"
    by (simp add: s1_def)
  have t: "\<forall>f. trial_setup a (w\<lparr>train_model := f\<rparr>) i s = (Inr (opt, None), s1)"
    using c(4) by (simp add: trial_setup_ignores_training s1_def opt_def)
  have u: "\<forall>f. trial a (w\<lparr>train_model := f\<rparr>) i s = after_training i (f i) s1"
    using t by (simp add: trial_def)
  have v: "\<forall>f. \<exists>post. log_file (state_of (trial a (w\<lparr>train_model := f\<rparr>) i s)) = log_file s1 @ post"
    using u after_training_appends by simp
  have first: "\<exists>spec opt s1.
            spec \<in> set optimizer_choices
            \<and> log_file s1 = log_file s @
                 [(i, StartTime (clock w i)),
                  (i, ModelIs (network a)),
                  (i, OptimizerChoice (name spec)),
                  (i, OptimizerProperties (defaults opt))]
            \<and> (\<forall>f. trial_setup a (w\<lparr>train_model := f\<rparr>) i s = (Inr (opt, None), s1))
            \<and> (\<forall>f. trial a (w\<lparr>train_model := f\<rparr>) i s = after_training i (f i) s1)
            \<and> (\<forall>f. \<exists>post. log_file (state_of (trial a (w\<lparr>train_model := f\<rparr>) i s))
                             = log_file s1 @ post)"
    using c(1) l t u v by blast
  show ?thesis using first third choose_lr_scheduler_logs by blast
qed

theorem C6_witness:
  "wf_rng (random_state (init_session (\<lambda>n. 0)))
   \<and> setup_succeeds (example_world (\<lambda>i. Returned example_metrics)) 0
   \<and> keeps_keywords (example_world (\<lambda>i. Returned example_metrics))
   \<and> log_file (state_of (trial (example_args 1)
        ((example_world (\<lambda>i. Returned example_metrics))
           \<lparr>train_model := \<lambda>i. Raised (RuntimeError ''loss is nan'')\<rparr>) 0 (init_session (\<lambda>n. 0)))) =
       [(0, StartTime 1600000000),
        (0, ModelIs ''fasterrcnn_resnet50''),
        (0, OptimizerChoice ''SGD''),
        (0, OptimizerProperties
              [(''lr'', 0.0005), (''momentum'', 0), (''weight_decay'', 0), (''dampening'', 0)]),
        (0, TrainingFailed ''loss is nan'')]
   \<and> (\<exists>s1. trial (example_args 1)
        ((example_world (\<lambda>i. Returned example_metrics))
           \<lparr>train_model := \<lambda>i. Raised ValueError\<rparr>) 0 (init_session (\<lambda>n. 0)) = Raise ValueError s1
        \<and> log_file s1 =
       [(0, StartTime 1600000000),
        (0, ModelIs ''fasterrcnn_resnet50''),
        (0, OptimizerChoice ''SGD''),
        (0, OptimizerProperties
              [(''lr'', 0.0005), (''momentum'', 0), (''weight_decay'', 0), (''dampening'', 0)])])"
proof -
  have h: "wf_rng (random_state (init_session (\<lambda>n. 0)))"
    by (simp add: init_session_def wf_rng_def)
  have h2: "setup_succeeds (example_world (\<lambda>i. Returned example_metrics)) 0"
    by (rule example_world_environment)
  note th = C6_configuration_logged_before_training[OF h h2, of "example_args 1"]
  from th[THEN conjunct1] obtain spec opt s1 where c0: "spec \<in> set optimizer_choices" and c:
      "log_file s1 = log_file (init_session (\<lambda>n. 0)) @
                 [(0, StartTime (clock (example_world (\<lambda>i. Returned example_metrics)) 0)),
                  (0, ModelIs (network (example_args 1))),
                  (0, OptimizerChoice (name spec)),
                  (0, OptimizerProperties (defaults opt))]"
      "\<forall>f. trial_setup (example_args 1) ((example_world (\<lambda>i. Returned example_metrics))\<lparr>train_model := f\<rparr>)
             0 (init_session (\<lambda>n. 0)) = (Inr (opt, None), s1)"
      "\<forall>f. trial (example_args 1) ((example_world (\<lambda>i. Returned example_metrics))\<lparr>train_model := f\<rparr>)
             0 (init_session (\<lambda>n. 0)) = after_training 0 (f 0) s1"
      "\<forall>f. \<exists>post. log_file (state_of (trial (example_args 1)
             ((example_world (\<lambda>i. Returned example_metrics))\<lparr>train_model := f\<rparr>)
             0 (init_session (\<lambda>n. 0)))) = log_file s1 @ post"
    by blast
  have stp: "trial_setup (example_args 1)
        ((example_world (\<lambda>i. Returned example_metrics))\<lparr>train_model := \<lambda>i. Raised ValueError\<rparr>)
        0 (init_session (\<lambda>n. 0)) = (Inr (opt, None), s1)"
    using c(2) by blast
  have lg: "log_file s1 =
       [(0, StartTime 1600000000),
        (0, ModelIs ''fasterrcnn_resnet50''),
        (0, OptimizerChoice ''SGD''),
        (0, OptimizerProperties
              [(''lr'', 0.0005), (''momentum'', 0), (''weight_decay'', 0), (''dampening'', 0)])]"
  proof -
    have "log_file (snd (trial_setup (example_args 1)
        ((example_world (\<lambda>i. Returned example_metrics))\<lparr>train_model := \<lambda>i. Raised ValueError\<rparr>)
        0 (init_session (\<lambda>n. 0)))) =
       [(0, StartTime 1600000000),
        (0, ModelIs ''fasterrcnn_resnet50''),
        (0, OptimizerChoice ''SGD''),
        (0, OptimizerProperties
              [(''lr'', 0.0005), (''momentum'', 0), (''weight_decay'', 0), (''dampening'', 0)])]"
      by (simp add: eval_defs)
    then show ?thesis using stp by simp
  qed
  have t1: "trial (example_args 1)
        ((example_world (\<lambda>i. Returned example_metrics))
           \<lparr>train_model := \<lambda>i. Raised (RuntimeError ''loss is nan'')\<rparr>) 0 (init_session (\<lambda>n. 0))
        = Next (log_and_print 0 (TrainingFailed ''loss is nan'') s1)"
    using c(3) by simp
  have t2: "trial (example_args 1)
        ((example_world (\<lambda>i. Returned example_metrics))
           \<lparr>train_model := \<lambda>i. Raised ValueError\<rparr>) 0 (init_session (\<lambda>n. 0)) = Raise ValueError s1"
    using c(3) by simp
  have a: "log_file (state_of (trial (example_args 1)
        ((example_world (\<lambda>i. Returned example_metrics))
           \<lparr>train_model := \<lambda>i. Raised (RuntimeError ''loss is nan'')\<rparr>) 0 (init_session (\<lambda>n. 0)))) =
       [(0, StartTime 1600000000),
        (0, ModelIs ''fasterrcnn_resnet50''),
        (0, OptimizerChoice ''SGD''),
        (0, OptimizerProperties
              [(''lr'', 0.0005), (''momentum'', 0), (''weight_decay'', 0), (''dampening'', 0)]),
        (0, TrainingFailed ''loss is nan'')]"
    using t1 lg by (simp add: log_and_print_def)
  have kk: "keeps_keywords (example_world (\<lambda>i. Returned example_metrics))"
    by (auto simp add: keeps_keywords_def example_world_def example_optimizer_def)
  show ?thesis using h h2 kk a t2 lg by (intro conjI exI) assumption+
qed

section \<open>Labels and filtered detections\<close>

lemma split_from_nonempty:
  "cur \<noteq> [] \<or> t \<noteq> [] \<Longrightarrow> split_from cur t \<noteq> []"
  by (induction cur t rule: split_from.induct) auto

lemma splitlines_nonempty: "content \<noteq> [] \<Longrightarrow> splitlines content \<noteq> []"
  by (simp add: splitlines_def split_from_nonempty)

lemma splitlines_empty: "splitlines [] = []"
  by (simp add: splitlines_def)

lemma read_labels_Some:
  "content \<noteq> [] \<Longrightarrow> read_labels (Some content) = Inr (background # splitlines content)"
  using splitlines_nonempty[of content] by (simp add: read_labels_def Let_def)

lemma read_labels_Inr:
  assumes "read_labels lf = Inr ls"
  shows "\<exists>content. lf = Some content \<and> content \<noteq> [] \<and> ls = background # splitlines content"
proof (cases lf)
  case None
  then show ?thesis using assms by (simp add: read_labels_def)
next
  case (Some content)
  have "content \<noteq> []"
    using assms Some by (auto simp: read_labels_def Let_def splitlines_empty)
  then show ?thesis using assms Some read_labels_Some by auto
qed

lemma read_labels_early:
  "lf = None \<or> lf = Some [] \<Longrightarrow> \<exists>msg. read_labels lf = Inl msg"
  by (auto simp: read_labels_def Let_def splitlines_empty)

text \<open>
  C9. In \<open>predict_spin.main\<close> and \<open>visualize.main\<close> alike: a label file that is missing
  or empty makes \<open>main\<close> return early, so no model is constructed; for a non-empty
  label file the label list is \<open>background\<close> followed by the file's lines in their
  order, and whenever a model is constructed it is constructed with as many classes
  as the file has lines plus one and the drawing gets that list, which happens as soon
  as the other inputs of \<open>main\<close> (saved model, manifest, camera) are present.
\<close>

theorem C9_labels_start_with_background:
  "(content \<noteq> [] \<longrightarrow> read_labels (Some content) = Inr (background # splitlines content))
   \<and> (\<forall>h. predict_spin_main env = Constructed h \<longrightarrow>
         (\<exists>c. label_file env = Some c \<and> c \<noteq> []
            \<and> drawn_labels h = background # splitlines c
            \<and> drawn_labels h ! 0 = background
            \<and> model_num_classes h = length (splitlines c) + 1))
   \<and> (\<forall>h. visualize_main venv = Constructed h \<longrightarrow>
         (\<exists>c. vis_label_file venv = Some c \<and> c \<noteq> []
            \<and> drawn_labels h = background # splitlines c
            \<and> drawn_labels h ! 0 = background
            \<and> model_num_classes h = length (splitlines c) + 1))
   \<and> (label_file env = Some content \<and> content \<noteq> []
        \<and> saved_model_file_path env \<noteq> None \<and> num_cameras env \<noteq> 0 \<longrightarrow>
        predict_spin_main env =
          Constructed \<lparr>model_num_classes = length (splitlines content) + 1,
                       drawn_labels = background # splitlines content\<rparr>)
   \<and> (vis_label_file venv = Some content \<and> content \<noteq> []
        \<and> manifest_file_path venv \<noteq> None \<and> vis_saved_model_file_path venv \<noteq> None \<longrightarrow>
        visualize_main venv =
          Constructed \<lparr>model_num_classes = length (splitlines content) + 1,
                       drawn_labels = background # splitlines content\<rparr>)
   \<and> (label_file env = None \<or> label_file env = Some [] \<longrightarrow>
        (\<exists>msg. predict_spin_main env = ReturnedEarly msg))
   \<and> (vis_label_file venv = None \<or> vis_label_file venv = Some [] \<longrightarrow>
        (\<exists>msg. visualize_main venv = ReturnedEarly msg))"
proof -
  have a: "content \<noteq> [] \<longrightarrow> read_labels (Some content) = Inr (background # splitlines content)"
    using read_labels_Some by blast
  have b: "\<forall>h. predict_spin_main env = Constructed h \<longrightarrow>
         (\<exists>c. label_file env = Some c \<and> c \<noteq> []
            \<and> drawn_labels h = background # splitlines c
            \<and> drawn_labels h ! 0 = background
            \<and> model_num_classes h = length (splitlines c) + 1)"
  proof (intro allI impI)
    fix h assume h: "predict_spin_main env = Constructed h"
    then obtain ls where ls: "read_labels (label_file env) = Inr ls" "h = display_images ls"
      by (auto simp: predict_spin_main_def split: sum.splits if_splits)
    obtain c where c: "label_file env = Some c" "c \<noteq> []" "ls = background # splitlines c"
      using read_labels_Inr[OF ls(1)] by blast
    show "\<exists>c. label_file env = Some c \<and> c \<noteq> []
            \<and> drawn_labels h = background # splitlines c
            \<and> drawn_labels h ! 0 = background
            \<and> model_num_classes h = length (splitlines c) + 1"
      using c ls(2) by (simp add: display_images_def)
  qed
  have c: "\<forall>h. visualize_main venv = Constructed h \<longrightarrow>
         (\<exists>c. vis_label_file venv = Some c \<and> c \<noteq> []
            \<and> drawn_labels h = background # splitlines c
            \<and> drawn_labels h ! 0 = background
            \<and> model_num_classes h = length (splitlines c) + 1)"
  proof (intro allI impI)
    fix h assume h: "visualize_main venv = Constructed h"
    then obtain ls where ls: "read_labels (vis_label_file venv) = Inr ls"
        "h = \<lparr>model_num_classes = length ls, drawn_labels = ls\<rparr>"
      by (auto simp: visualize_main_def Let_def split: sum.splits if_splits)
    obtain c where c: "vis_label_file venv = Some c" "c \<noteq> []" "ls = background # splitlines c"
      using read_labels_Inr[OF ls(1)] by blast
    show "\<exists>c. vis_label_file venv = Some c \<and> c \<noteq> []
            \<and> drawn_labels h = background # splitlines c
            \<and> drawn_labels h ! 0 = background
            \<and> model_num_classes h = length (splitlines c) + 1"
      using c ls(2) by simp
  qed
  have d: "label_file env = Some content \<and> content \<noteq> []
        \<and> saved_model_file_path env \<noteq> None \<and> num_cameras env \<noteq> 0 \<longrightarrow>
        predict_spin_main env =
          Constructed \<lparr>model_num_classes = length (splitlines content) + 1,
                       drawn_labels = background # splitlines content\<rparr>"
    using read_labels_Some[of content]
    by (auto simp: predict_spin_main_def display_images_def)
  have e: "vis_label_file venv = Some content \<and> content \<noteq> []
        \<and> manifest_file_path venv \<noteq> None \<and> vis_saved_model_file_path venv \<noteq> None \<longrightarrow>
        visualize_main venv =
          Constructed \<lparr>model_num_classes = length (splitlines content) + 1,
                       drawn_labels = background # splitlines content\<rparr>"
    using read_labels_Some[of content]
    by (auto simp: visualize_main_def Let_def)
  have f: "label_file env = None \<or> label_file env = Some [] \<longrightarrow>
        (\<exists>msg. predict_spin_main env = ReturnedEarly msg)"
    using read_labels_early[of "label_file env"] by (auto simp: predict_spin_main_def)
  have g: "vis_label_file venv = None \<or> vis_label_file venv = Some [] \<longrightarrow>
        (\<exists>msg. visualize_main venv = ReturnedEarly msg)"
    using read_labels_early[of "vis_label_file venv"] by (auto simp: visualize_main_def)
  show ?thesis using a b c d e f g by blast
qed

theorem C9_witness:
  "example_label_text \<noteq> []
   \<and> splitlines example_label_text = [[99, 97, 116], [100, 111, 103]]
   \<and> read_labels (Some example_label_text) = Inr [background, [99, 97, 116], [100, 111, 103]]
   \<and> predict_spin_main
        \<lparr>label_file = Some example_label_text, saved_model_file_path = Some ''model-3.pt'',
         num_cameras = 1\<rparr> =
       Constructed \<lparr>model_num_classes = 3,
                    drawn_labels = [background, [99, 97, 116], [100, 111, 103]]\<rparr>
   \<and> visualize_main
        \<lparr>vis_label_file = Some example_label_text, manifest_file_path = Some ''manifest-1.txt'',
         vis_saved_model_file_path = Some ''model-3.pt''\<rparr> =
       Constructed \<lparr>model_num_classes = 3,
                    drawn_labels = [background, [99, 97, 116], [100, 111, 103]]\<rparr>
   \<and> predict_spin_main
        \<lparr>label_file = Some [], saved_model_file_path = Some ''model-3.pt'', num_cameras = 1\<rparr> =
       ReturnedEarly ''No label categories found''
   \<and> visualize_main
        \<lparr>vis_label_file = None, manifest_file_path = Some ''manifest-1.txt'',
         vis_saved_model_file_path = Some ''model-3.pt''\<rparr> =
       ReturnedEarly ''Missing file''"
proof -
  have n: "example_label_text \<noteq> []" by (simp add: example_label_text_def)
  have sp: "splitlines example_label_text = [[99, 97, 116], [100, 111, 103]]"
    by (simp add: example_label_text_def splitlines_def is_line_boundary_def)
  note th = C9_labels_start_with_background[of example_label_text
      "\<lparr>label_file = Some example_label_text, saved_model_file_path = Some ''model-3.pt'',
         num_cameras = 1\<rparr>"
      "\<lparr>vis_label_file = Some example_label_text, manifest_file_path = Some ''manifest-1.txt'',
         vis_saved_model_file_path = Some ''model-3.pt''\<rparr>"]
  have r: "read_labels (Some example_label_text) = Inr [background, [99, 97, 116], [100, 111, 103]]"
    using th n sp by simp
  have p: "predict_spin_main
        \<lparr>label_file = Some example_label_text, saved_model_file_path = Some ''model-3.pt'',
         num_cameras = 1\<rparr> =
       Constructed \<lparr>model_num_classes = 3,
                    drawn_labels = [background, [99, 97, 116], [100, 111, 103]]\<rparr>"
    using th n sp by simp
  have v: "visualize_main
        \<lparr>vis_label_file = Some example_label_text, manifest_file_path = Some ''manifest-1.txt'',
         vis_saved_model_file_path = Some ''model-3.pt''\<rparr> =
       Constructed \<lparr>model_num_classes = 3,
                    drawn_labels = [background, [99, 97, 116], [100, 111, 103]]\<rparr>"
    using th n sp by simp
  have e1: "predict_spin_main
        \<lparr>label_file = Some [], saved_model_file_path = Some ''model-3.pt'', num_cameras = 1\<rparr> =
       ReturnedEarly ''No label categories found''"
    by (simp add: predict_spin_main_def read_labels_def splitlines_def)
  have e2: "visualize_main
        \<lparr>vis_label_file = None, manifest_file_path = Some ''manifest-1.txt'',
         vis_saved_model_file_path = Some ''model-3.pt''\<rparr> =
       ReturnedEarly ''Missing file''"
    by (simp add: visualize_main_def read_labels_def)
  show ?thesis using n sp r p v e1 e2 by (intro conjI) assumption+
qed

lemma filter_rows_in_range:
  assumes "\<forall>j\<in>set js. j < length (scores out) \<and> j < length (labels out)"
  shows "filter_rows out threshold js =
           Inr (map (\<lambda>j. (boxes out ! j, labels out ! j, scores out ! j))
                  (filter (\<lambda>j. scores out ! j > threshold \<and> labels out ! j > 0) js))"
  using assms by (induction js) auto

lemma zip3_as_map:
  assumes "length ls = length bs" "length ss = length bs"
  shows "zip bs (zip ls ss) = map (\<lambda>j. (bs ! j, ls ! j, ss ! j)) [0..<length bs]"
  using assms by (intro nth_equalityI) auto

lemma filtered_output_is_filter:
  assumes "length (labels out) = length (boxes out)" "length (scores out) = length (boxes out)"
  shows "filtered_output out threshold =
           Inr (filter (\<lambda>(b, l, s). s > threshold \<and> l > 0)
                  (zip (boxes out) (zip (labels out) (scores out))))"
proof -
  have "filter_rows out threshold [0..<length (boxes out)] =
           Inr (map (\<lambda>j. (boxes out ! j, labels out ! j, scores out ! j))
                  (filter (\<lambda>j. scores out ! j > threshold \<and> labels out ! j > 0)
                     [0..<length (boxes out)]))"
    by (rule filter_rows_in_range) (use assms in auto)
  moreover have "filter (\<lambda>(b, l, s). s > threshold \<and> l > 0)
                  (zip (boxes out) (zip (labels out) (scores out)))
      = map (\<lambda>j. (boxes out ! j, labels out ! j, scores out ! j))
                  (filter (\<lambda>j. scores out ! j > threshold \<and> labels out ! j > 0)
                     [0..<length (boxes out)])"
    unfolding zip3_as_map[OF assms] by (simp add: filter_map comp_def)
  ultimately show ?thesis by (simp add: filtered_output_def)
qed

lemma unzip_step_ok:
  "unzip_step rows =
     Inr (Boxes (map fst rows), Labels (map (fst \<circ> snd) rows), Scores (map (snd \<circ> snd) rows))"
  by (cases rows) (simp_all add: unzip_step_def zip_star_def)

text \<open>
  C10. For a model output whose three tensors have the same length, the filtered
  detections are, in the model's order, exactly the detections whose score is
  strictly greater than the threshold and whose label is greater than zero; as labels
  are class indices (none is negative), these are the detections with a nonzero
  label. The unzip step never raises, and when no detection passes the filter it
  yields three empty sequences with which \<open>draw_bboxes\<close> is called.
\<close>

theorem C10_filtered_detections:
  assumes "length (labels out) = length (boxes out)" "length (scores out) = length (boxes out)"
  shows "\<exists>rows.
           filtered_output out threshold = Inr rows
           \<and> rows = filter (\<lambda>(b, l, s). s > threshold \<and> l > 0)
                      (zip (boxes out) (zip (labels out) (scores out)))
           \<and> ((\<forall>l\<in>set (labels out). 0 \<le> l) \<longrightarrow>
                rows = filter (\<lambda>(b, l, s). s > threshold \<and> l \<noteq> 0)
                         (zip (boxes out) (zip (labels out) (scores out))))
           \<and> draw_inference label_list threshold out =
               Inr \<lparr>inference_boxes = Boxes (map fst rows),
                    inference_labels = Labels (map (fst \<circ> snd) rows),
                    inference_scores = Scores (map (snd \<circ> snd) rows),
                    label_names = label_list\<rparr>
           \<and> (rows = [] \<longrightarrow>
                unzip_step rows = Inr (Boxes [], Labels [], Scores [])
                \<and> draw_inference label_list threshold out =
                    Inr \<lparr>inference_boxes = Boxes [], inference_labels = Labels [],
                         inference_scores = Scores [], label_names = label_list\<rparr>)"
proof -
  define rows where "rows = filter (\<lambda>(b, l, s). s > threshold \<and> l > 0)
                      (zip (boxes out) (zip (labels out) (scores out)))"
  have f: "filtered_output out threshold = Inr rows"
    unfolding rows_def by (rule filtered_output_is_filter[OF assms])
  have nz: "(\<forall>l\<in>set (labels out). 0 \<le> l) \<longrightarrow>
                rows = filter (\<lambda>(b, l, s). s > threshold \<and> l \<noteq> 0)
                         (zip (boxes out) (zip (labels out) (scores out)))"
  proof
    assume nonneg: "\<forall>l\<in>set (labels out). 0 \<le> l"
    have "\<And>b l s. (b, l, s) \<in> set (zip (boxes out) (zip (labels out) (scores out))) \<Longrightarrow> 0 \<le> l"
    proof -
      fix b l s assume "(b, l, s) \<in> set (zip (boxes out) (zip (labels out) (scores out)))"
      then have "(l, s) \<in> set (zip (labels out) (scores out))" by (rule set_zip_rightD)
      then have "l \<in> set (labels out)" by (rule set_zip_leftD)
      then show "0 \<le> l" using nonneg by simp
    qed
    then show "rows = filter (\<lambda>(b, l, s). s > threshold \<and> l \<noteq> 0)
                         (zip (boxes out) (zip (labels out) (scores out)))"
      unfolding rows_def by (intro filter_cong) force+
  qed
  have d: "draw_inference label_list threshold out =
               Inr \<lparr>inference_boxes = Boxes (map fst rows),
                    inference_labels = Labels (map (fst \<circ> snd) rows),
                    inference_scores = Scores (map (snd \<circ> snd) rows),
                    label_names = label_list\<rparr>"
    by (simp add: draw_inference_def f unzip_step_ok)
  have e: "rows = [] \<longrightarrow>
                unzip_step rows = Inr (Boxes [], Labels [], Scores [])
                \<and> draw_inference label_list threshold out =
                    Inr \<lparr>inference_boxes = Boxes [], inference_labels = Labels [],
                         inference_scores = Scores [], label_names = label_list\<rparr>"
    using d by (simp add: unzip_step_ok)
  show ?thesis using f nz d e rows_def by blast
qed

theorem C10_witness:
  "length (labels example_outputs_none) = length (boxes example_outputs_none)
   \<and> length (scores example_outputs_none) = length (boxes example_outputs_none)
   \<and> filtered_output example_outputs_none 0.5 = Inr []
   \<and> unzip_step [] = Inr (Boxes [], Labels [], Scores [])
   \<and> draw_inference [background, [99, 97, 116], [100, 111, 103]] 0.5 example_outputs_none =
       Inr \<lparr>inference_boxes = Boxes [], inference_labels = Labels [],
            inference_scores = Scores [],
            label_names = [background, [99, 97, 116], [100, 111, 103]]\<rparr>
   \<and> filtered_output example_outputs 0.5 = Inr [((10, 10, 50, 60), 1, 0.9)]
   \<and> draw_inference [background, [99, 97, 116], [100, 111, 103]] 0.5 example_outputs =
       Inr \<lparr>inference_boxes = Boxes [(10, 10, 50, 60)], inference_labels = Labels [1],
            inference_scores = Scores [0.9],
            label_names = [background, [99, 97, 116], [100, 111, 103]]\<rparr>"
proof -
  have h1: "length (labels example_outputs_none) = length (boxes example_outputs_none)"
    by (simp add: example_outputs_none_def)
  have h2: "length (scores example_outputs_none) = length (boxes example_outputs_none)"
    by (simp add: example_outputs_none_def)
  have g1: "length (labels example_outputs) = length (boxes example_outputs)"
    by (simp add: example_outputs_def)
  have g2: "length (scores example_outputs) = length (boxes example_outputs)"
    by (simp add: example_outputs_def)
  have r0: "filter (\<lambda>(b, l, s). s > 0.5 \<and> l > 0)
              (zip (boxes example_outputs_none)
                 (zip (labels example_outputs_none) (scores example_outputs_none))) = []"
    by (simp add: example_outputs_none_def)
  have r1: "filter (\<lambda>(b, l, s). s > 0.5 \<and> l > 0)
              (zip (boxes example_outputs)
                 (zip (labels example_outputs) (scores example_outputs)))
            = [((10, 10, 50, 60), 1, 0.9)]"
    by (simp add: example_outputs_def)
  note a = C10_filtered_detections[OF h1 h2, of "0.5" "[background, [99, 97, 116], [100, 111, 103]]"]
  note b = C10_filtered_detections[OF g1 g2, of "0.5" "[background, [99, 97, 116], [100, 111, 103]]"]
  have a1: "filtered_output example_outputs_none 0.5 = Inr []" using a r0 by auto
  have a2: "unzip_step [] = Inr (Boxes [], Labels [], Scores [])" using a r0 by auto
  have a3: "draw_inference [background, [99, 97, 116], [100, 111, 103]] 0.5 example_outputs_none =
       Inr \<lparr>inference_boxes = Boxes [], inference_labels = Labels [],
            inference_scores = Scores [],
            label_names = [background, [99, 97, 116], [100, 111, 103]]\<rparr>"
    using a r0 by auto
  have b1: "filtered_output example_outputs 0.5 = Inr [((10, 10, 50, 60), 1, 0.9)]"
    using b r1 by auto
  have b2: "draw_inference [background, [99, 97, 116], [100, 111, 103]] 0.5 example_outputs =
       Inr \<lparr>inference_boxes = Boxes [(10, 10, 50, 60)], inference_labels = Labels [1],
            inference_scores = Scores [0.9],
            label_names = [background, [99, 97, 116], [100, 111, 103]]\<rparr>"
    using b r1 by auto
  show ?thesis using h1 h2 a1 a2 a3 b1 b2 by (intro conjI) assumption+
qed

end
